theory Spec2Isabelle
  imports Main
begin

section \<open>The page script \<^verbatim>\<open>src/js/main.js\<close> as an event-driven state machine\<close>

text \<open>
  The script keeps its state in module-level variables and in three buttons, and every
  function of it is an event handler or a helper of one. The model passes that state
  explicitly. An \<^verbatim>\<open>async\<close> function is cut at each \<^verbatim>\<open>await\<close>: the part up to the
  \<^verbatim>\<open>await\<close> runs at once and leaves a pending task (the platform call that was made,
  and the place to resume), and the part after it runs when the platform settles the
  promise. Between the two, any other event may be handled.

  What the browser does is not in the source. The model takes each promise's outcome as an
  input, and whether \<^verbatim>\<open>new RTCPeerConnection\<close> gives an object or throws; it gives the
  other synchronous platform calls (\<^verbatim>\<open>close\<close>, \<^verbatim>\<open>addTrack\<close>) their documented
  effect on the object. The time stamp that
  \<^verbatim>\<open>trace\<close> prints before each line and the two video-size loggers (which only write
  to the console and reset \<^verbatim>\<open>startTime\<close>) are left out. Strings are ASCII.
\<close>

subsection \<open>Values\<close>

text \<open>
  The value of a variable that holds a peer connection: \<^verbatim>\<open>undefined\<close> before the first
  call, \<^verbatim>\<open>null\<close> after a hangup, or an object, known by its address. \<^verbatim>\<open>===\<close> on
  such values is equality of this datatype.
\<close>

datatype ref = Undefined | Null | Obj nat

record js_error =
  err_name :: string
  err_message :: string

text \<open>\<^verbatim>\<open>Error.prototype.toString\<close>.\<close>

definition toString :: "js_error \<Rightarrow> string" where
  "toString e =
     (if err_name e = [] then err_message e
      else if err_message e = [] then err_name e
      else err_name e @ '': '' @ err_message e)"

text \<open>
  The \<^verbatim>\<open>TypeError\<close> of a property read on \<^verbatim>\<open>null\<close> or \<^verbatim>\<open>undefined\<close>
  (the message in V8's wording).
\<close>

definition cannot_read :: "ref \<Rightarrow> string \<Rightarrow> js_error" where
  "cannot_read r p =
     \<lparr>err_name = ''TypeError'',
      err_message = ''Cannot read properties of ''
        @ (case r of Null \<Rightarrow> ''null'' | _ \<Rightarrow> ''undefined'')
        @ '' (reading '' @ [CHR 0x27] @ p @ [CHR 0x27] @ '')''\<rparr>"

datatype track_kind = Audio | Video

record track =
  kind :: track_kind
  label :: string

record media_stream =
  stream_id :: string
  tracks :: "track list"

definition getTracks :: "media_stream \<Rightarrow> track list" where
  "getTracks m = tracks m"

definition getVideoTracks :: "media_stream \<Rightarrow> track list" where
  "getVideoTracks m = filter (\<lambda>t. kind t = Video) (tracks m)"

definition getAudioTracks :: "media_stream \<Rightarrow> track list" where
  "getAudioTracks m = filter (\<lambda>t. kind t = Audio) (tracks m)"

datatype sdp_type = Offer | Answer

record description =
  desc_type :: sdp_type
  sdp :: string

record ice_candidate =
  candidate :: string
  sdpMid :: string
  sdpMLineIndex :: nat

text \<open>The part of an \<^verbatim>\<open>RTCPeerConnection\<close> object that the script's calls change.\<close>

record peer_connection =
  localDescription :: "description option"
  remoteDescription :: "description option"
  remoteCandidates :: "ice_candidate list"
  senders :: "track list"
  iceConnectionState :: string
  isClosed :: bool

definition fresh_peer_connection :: peer_connection where
  "fresh_peer_connection =
     \<lparr>localDescription = None, remoteDescription = None, remoteCandidates = [],
      senders = [], iceConnectionState = ''new'', isClosed = False\<rparr>"

subsection \<open>Platform calls, pending tasks and the state\<close>

text \<open>A call of a platform method, with the address of the object it is made on.\<close>

datatype call =
    GetUserMedia
  | CreateOffer nat
  | CreateAnswer nat
  | SetLocalDescription nat description
  | SetRemoteDescription nat description
  | AddIceCandidate nat ice_candidate
  | AddTrack nat track
  | Close nat

text \<open>
  The places where an \<^verbatim>\<open>async\<close> function waits, with the locals it needs afterwards:
  \<^verbatim>\<open>startAction\<close> (line 205), \<^verbatim>\<open>callAction\<close> (line 255), \<^verbatim>\<open>createdOffer\<close>
  (lines 144, 152, 160), \<^verbatim>\<open>createdAnswer\<close> (lines 173, 181) and
  \<^verbatim>\<open>handleConnection\<close> (line 82, with \<^verbatim>\<open>event.target\<close> and \<^verbatim>\<open>event.candidate\<close>).
\<close>

datatype cont =
    K_startAction
  | K_callAction
  | K_createdOffer1 description
  | K_createdOffer2 description
  | K_createdOffer3
  | K_createdAnswer1 description
  | K_createdAnswer2 description
  | K_handleConnection nat ice_candidate

type_synonym task = "call \<times> cont"

datatype outcome =
    Fulfilled
  | FulfilledDescription description
  | FulfilledStream media_stream
  | Rejected js_error

text \<open>What \<^verbatim>\<open>window.performance.now()\<close> returns, in microseconds.\<close>

type_synonym timestamp = nat

text \<open>
  The variables of the script (lines 13 to 23), the \<^verbatim>\<open>srcObject\<close> of the two video
  elements and the \<^verbatim>\<open>disabled\<close> flag of the three buttons; the peer connections that
  exist, by address; and three things the script does not hold itself: the lines written
  to the console, the platform calls made so far, and the tasks that wait for a promise.
  \<open>uncaught\<close> collects the errors that no handler caught.
\<close>

record state =
  localStream :: "media_stream option"
  remoteStream :: "media_stream option"
  localPeerConnection :: ref
  remotePeerConnection :: ref
  startTime :: "timestamp option"
  localVideo_srcObject :: "media_stream option"
  remoteVideo_srcObject :: "media_stream option"
  startButton_disabled :: bool
  callButton_disabled :: bool
  hangupButton_disabled :: bool
  heap :: "peer_connection list"
  console :: "string list"
  calls :: "call list"
  pending :: "task list"
  uncaught :: "js_error list"

text \<open>
  The state when the script has loaded: no stream, no peer connection, the call and hangup
  buttons disabled (lines 196 and 197), the start button enabled as the page's markup
  leaves it.
\<close>

definition init :: state where
  "init =
     \<lparr>localStream = None, remoteStream = None,
      localPeerConnection = Undefined, remotePeerConnection = Undefined,
      startTime = None, localVideo_srcObject = None, remoteVideo_srcObject = None,
      startButton_disabled = False, callButton_disabled = True,
      hangupButton_disabled = True,
      heap = [], console = [], calls = [], pending = [], uncaught = []\<rparr>"

text \<open>How a handler ends: normally, or by throwing, with the state it leaves behind.\<close>

datatype completion = Normal state | Throws js_error state

subsection \<open>The platform's side\<close>

text \<open>
  \<^verbatim>\<open>new RTCPeerConnection(servers)\<close> gives a new object, or throws (a platform without
  WebRTC, or one that refuses a further connection). Which of the two is the platform's
  choice, so it is an input.
\<close>

datatype construction = Constructed | Construction_throws js_error

definition new_RTCPeerConnection :: "construction \<Rightarrow> state \<Rightarrow> js_error + nat \<times> state" where
  "new_RTCPeerConnection c s =
     (case c of
        Constructed \<Rightarrow> Inr (length (heap s), s\<lparr>heap := heap s @ [fresh_peer_connection]\<rparr>)
      | Construction_throws e \<Rightarrow> Inl e)"

text \<open>
  \<^verbatim>\<open>addTrack\<close> on a connection that is open and has no sender for the track, as it is
  for the distinct tracks of a stream and the connection just created.
\<close>

definition addTrack :: "nat \<Rightarrow> track \<Rightarrow> state \<Rightarrow> state" where
  "addTrack a t s =
     s\<lparr>heap := (heap s)[a := (heap s ! a)\<lparr>senders := senders (heap s ! a) @ [t]\<rparr>],
       calls := calls s @ [AddTrack a t]\<rparr>"

definition close :: "nat \<Rightarrow> state \<Rightarrow> state" where
  "close a s =
     s\<lparr>heap := (heap s)[a := (heap s ! a)\<lparr>isClosed := True, iceConnectionState := ''closed''\<rparr>],
       calls := calls s @ [Close a]\<rparr>"

text \<open>An asynchronous platform call: the call is made and its promise is awaited.\<close>

definition suspend :: "task \<Rightarrow> state \<Rightarrow> state" where
  "suspend t s = s\<lparr>calls := calls s @ [fst t], pending := pending s @ [t]\<rparr>"

text \<open>The outcomes a call's promise can have, by its type.\<close>

fun fits :: "call \<Rightarrow> outcome \<Rightarrow> bool" where
  "fits c (Rejected e) = True"
| "fits GetUserMedia (FulfilledStream m) = True"
| "fits (CreateOffer a) (FulfilledDescription d) = True"
| "fits (CreateAnswer a) (FulfilledDescription d) = True"
| "fits (SetLocalDescription a d) Fulfilled = True"
| "fits (SetRemoteDescription a d) Fulfilled = True"
| "fits (AddIceCandidate a c) Fulfilled = True"
| "fits c out = False"

text \<open>What a fulfilled call has done to its object; a rejected call has done nothing.\<close>

fun effect :: "call \<Rightarrow> outcome \<Rightarrow> state \<Rightarrow> state" where
  "effect (SetLocalDescription a d) Fulfilled s =
     s\<lparr>heap := (heap s)[a := (heap s ! a)\<lparr>localDescription := Some d\<rparr>]\<rparr>"
| "effect (SetRemoteDescription a d) Fulfilled s =
     s\<lparr>heap := (heap s)[a := (heap s ! a)\<lparr>remoteDescription := Some d\<rparr>]\<rparr>"
| "effect (AddIceCandidate a c) Fulfilled s =
     s\<lparr>heap := (heap s)[a := (heap s ! a)\<lparr>remoteCandidates := remoteCandidates (heap s ! a) @ [c]\<rparr>]\<rparr>"
| "effect c out s = s"

subsection \<open>Helper functions (lines 280 to 296)\<close>

text \<open>
  \<^verbatim>\<open>String.prototype.trim\<close> on ASCII strings: of the white space it strips, the six
  ASCII characters.
\<close>

definition is_space :: "char \<Rightarrow> bool" where
  "is_space c = (c \<in> set [CHR '' '', CHR 0x09, CHR 0x0A, CHR 0x0B, CHR 0x0C, CHR 0x0D])"

definition trim :: "string \<Rightarrow> string" where
  "trim text = rev (dropWhile is_space (rev (dropWhile is_space text)))"

definition trace :: "string \<Rightarrow> state \<Rightarrow> state" where
  "trace text s = s\<lparr>console := console s @ [trim text]\<rparr>"

definition getOtherPeer :: "ref \<Rightarrow> state \<Rightarrow> ref" where
  "getOtherPeer peerConnection s =
     (if peerConnection = localPeerConnection s then remotePeerConnection s
      else localPeerConnection s)"

definition getPeerName :: "ref \<Rightarrow> state \<Rightarrow> string" where
  "getPeerName peerConnection s =
     (if peerConnection = localPeerConnection s then ''localPeerConnection''
      else ''remotePeerConnection'')"

subsection \<open>Logging handlers (lines 33 to 36 and 92 to 128)\<close>

definition handleLocalMediaStreamError :: "js_error \<Rightarrow> state \<Rightarrow> state" where
  "handleLocalMediaStreamError error s =
     trace (''navigator.getUserMedia error: '' @ toString error @ ''.'') s"

definition handleConnectionSuccess :: "ref \<Rightarrow> state \<Rightarrow> state" where
  "handleConnectionSuccess peerConnection s =
     trace (getPeerName peerConnection s @ '' addIceCandidate success.'') s"

definition handleConnectionFailure :: "ref \<Rightarrow> js_error \<Rightarrow> state \<Rightarrow> state" where
  "handleConnectionFailure peerConnection error s =
     trace (getPeerName peerConnection s @ '' failed to add ICE Candidate:\<newline>''
              @ toString error @ ''.'') s"

text \<open>
  \<^verbatim>\<open>handleConnectionChange\<close>: the first console line is the one that \<^verbatim>\<open>console.log\<close>
  writes itself (the event object it prints is left out).
\<close>

definition handleConnectionChange :: "nat \<Rightarrow> state \<Rightarrow> state" where
  "handleConnectionChange target s =
     (let peerConnection = Obj target;
          s = s\<lparr>console := console s @ [''ICE state change event: '']\<rparr>
      in trace (getPeerName peerConnection s @ '' ICE state: ''
                  @ iceConnectionState (heap s ! target) @ ''.'') s)"

definition setSessionDescriptionError :: "js_error \<Rightarrow> state \<Rightarrow> state" where
  "setSessionDescriptionError error s =
     trace (''Failed to create session description: '' @ toString error @ ''.'') s"

definition setDescriptionSuccess :: "ref \<Rightarrow> string \<Rightarrow> state \<Rightarrow> state" where
  "setDescriptionSuccess peerConnection functionName s =
     (let peerName = getPeerName peerConnection s
      in trace (peerName @ '' '' @ functionName @ '' complete.'') s)"

definition setLocalDescriptionSuccess :: "ref \<Rightarrow> state \<Rightarrow> state" where
  "setLocalDescriptionSuccess peerConnection s =
     setDescriptionSuccess peerConnection ''setLocalDescription'' s"

definition setRemoteDescriptionSuccess :: "ref \<Rightarrow> state \<Rightarrow> state" where
  "setRemoteDescriptionSuccess peerConnection s =
     setDescriptionSuccess peerConnection ''setRemoteDescription'' s"

subsection \<open>Media streams (lines 25 to 44)\<close>

definition gotLocalMediaStream :: "media_stream \<Rightarrow> state \<Rightarrow> state" where
  "gotLocalMediaStream mediaStream s =
     (let s = s\<lparr>localVideo_srcObject := Some mediaStream\<rparr>;
          s = s\<lparr>localStream := Some mediaStream\<rparr>;
          s = trace ''Received local stream'' s
      in s\<lparr>callButton_disabled := False\<rparr>)"

text \<open>\<^verbatim>\<open>event.streams[0]\<close> is \<^verbatim>\<open>undefined\<close> when the event carries no stream.\<close>

definition gotRemoteMediaStream :: "media_stream list \<Rightarrow> state \<Rightarrow> state" where
  "gotRemoteMediaStream streams s =
     (let mediaStream = (case streams of [] \<Rightarrow> None | m # _ \<Rightarrow> Some m);
          s = s\<lparr>remoteVideo_srcObject := mediaStream\<rparr>;
          s = s\<lparr>remoteStream := mediaStream\<rparr>
      in trace ''Remote peer connection received remote stream.'' s)"

subsection \<open>The candidate relay: \<^verbatim>\<open>handleConnection\<close> (lines 73 to 90)\<close>

text \<open>Line 88, after the \<^verbatim>\<open>try\<close> statement.\<close>

definition handleConnection_end :: "nat \<Rightarrow> ice_candidate \<Rightarrow> state \<Rightarrow> state" where
  "handleConnection_end target iceCandidate s =
     trace (getPeerName (Obj target) s @ '' ICE candidate:\<newline>'' @ candidate iceCandidate) s"

text \<open>
  Lines 74 to 82. \<^verbatim>\<open>new RTCIceCandidate\<close> copies the candidate. When \<^verbatim>\<open>otherPeer\<close> is
  no object, the call on line 82 throws inside the \<^verbatim>\<open>try\<close> and line 85 handles it.
\<close>

definition handleConnection :: "nat \<Rightarrow> ice_candidate option \<Rightarrow> state \<Rightarrow> state" where
  "handleConnection target event_candidate s =
     (let peerConnection = Obj target in
      case event_candidate of
        None \<Rightarrow> s
      | Some iceCandidate \<Rightarrow>
          (let newIceCandidate = iceCandidate;
               otherPeer = getOtherPeer peerConnection s
           in case otherPeer of
                Obj other \<Rightarrow>
                  suspend (AddIceCandidate other newIceCandidate,
                           K_handleConnection target iceCandidate) s
              | r \<Rightarrow>
                  handleConnection_end target iceCandidate
                    (handleConnectionFailure peerConnection
                       (cannot_read r ''addIceCandidate'') s)))"

subsection \<open>The handshake: \<^verbatim>\<open>createdAnswer\<close> (lines 168 to 186)\<close>

text \<open>The second \<^verbatim>\<open>try\<close> statement, up to its \<^verbatim>\<open>await\<close> (lines 179 to 181).\<close>

definition createdAnswer_try2 :: "description \<Rightarrow> state \<Rightarrow> state" where
  "createdAnswer_try2 description s =
     (let s = trace ''localPeerConnection setRemoteDescription start.'' s
      in case localPeerConnection s of
           Obj a \<Rightarrow> suspend (SetRemoteDescription a description, K_createdAnswer2 description) s
         | r \<Rightarrow> setSessionDescriptionError (cannot_read r ''setRemoteDescription'') s)"

text \<open>The first \<^verbatim>\<open>try\<close> statement, up to its \<^verbatim>\<open>await\<close> (lines 171 to 173).\<close>

definition createdAnswer_try1 :: "description \<Rightarrow> state \<Rightarrow> state" where
  "createdAnswer_try1 description s =
     (let s = trace ''remotePeerConnection setLocalDescription start.'' s
      in case remotePeerConnection s of
           Obj a \<Rightarrow> suspend (SetLocalDescription a description, K_createdAnswer1 description) s
         | r \<Rightarrow>
             createdAnswer_try2 description
               (setSessionDescriptionError (cannot_read r ''setLocalDescription'') s))"

definition createdAnswer :: "description \<Rightarrow> state \<Rightarrow> state" where
  "createdAnswer description s =
     (let s = trace (''Answer from remotePeerConnection:\<newline>'' @ sdp description) s
      in createdAnswer_try1 description s)"

subsection \<open>The handshake: \<^verbatim>\<open>createdOffer\<close> (lines 139 to 165)\<close>

text \<open>The third \<^verbatim>\<open>try\<close> statement, up to its \<^verbatim>\<open>await\<close> (lines 158 to 160).\<close>

definition createdOffer_try3 :: "state \<Rightarrow> state" where
  "createdOffer_try3 s =
     (let s = trace ''remotePeerConnection createAnswer start.'' s
      in case remotePeerConnection s of
           Obj a \<Rightarrow> suspend (CreateAnswer a, K_createdOffer3) s
         | r \<Rightarrow> setSessionDescriptionError (cannot_read r ''createAnswer'') s)"

text \<open>The second \<^verbatim>\<open>try\<close> statement, up to its \<^verbatim>\<open>await\<close> (lines 150 to 152).\<close>

definition createdOffer_try2 :: "description \<Rightarrow> state \<Rightarrow> state" where
  "createdOffer_try2 description s =
     (let s = trace ''remotePeerConnection setRemoteDescription start'' s
      in case remotePeerConnection s of
           Obj a \<Rightarrow> suspend (SetRemoteDescription a description, K_createdOffer2 description) s
         | r \<Rightarrow>
             createdOffer_try3
               (setSessionDescriptionError (cannot_read r ''setRemoteDescription'') s))"

text \<open>The first \<^verbatim>\<open>try\<close> statement, up to its \<^verbatim>\<open>await\<close> (lines 142 to 144).\<close>

definition createdOffer_try1 :: "description \<Rightarrow> state \<Rightarrow> state" where
  "createdOffer_try1 description s =
     (let s = trace ''localPeerConnection setLocalDescription start.'' s
      in case localPeerConnection s of
           Obj a \<Rightarrow> suspend (SetLocalDescription a description, K_createdOffer1 description) s
         | r \<Rightarrow>
             createdOffer_try2 description
               (setSessionDescriptionError (cannot_read r ''setLocalDescription'') s))"

definition createdOffer :: "description \<Rightarrow> state \<Rightarrow> state" where
  "createdOffer description s =
     (let s = trace (''Offer from localPeerConnection:\<newline>'' @ sdp description) s
      in createdOffer_try1 description s)"

subsection \<open>The button actions (lines 200 to 271)\<close>

text \<open>
  \<^verbatim>\<open>startAction\<close> up to its \<^verbatim>\<open>await\<close>. The button is disabled before the stream is
  requested. Where the platform has no \<^verbatim>\<open>navigator.mediaDevices\<close>, line 205 throws
  inside the \<^verbatim>\<open>try\<close> and the \<^verbatim>\<open>catch\<close> runs as it does for a rejected request.
\<close>

definition startAction :: "state \<Rightarrow> state" where
  "startAction s =
     (let s = trace ''Requesting local stream.'' s;
          s = s\<lparr>startButton_disabled := True\<rparr>
      in suspend (GetUserMedia, K_startAction) s)"

text \<open>
  \<^verbatim>\<open>callAction\<close> up to its \<^verbatim>\<open>await\<close>, at the time \<open>now\<close>, with the outcomes of its
  two constructor calls. Line 221 reads a property of \<^verbatim>\<open>localStream\<close> outside every
  \<^verbatim>\<open>try\<close>, and so are the constructors called on lines 235 and 241; lines 214 to 218
  have run by then.
\<close>

definition callAction :: "timestamp \<Rightarrow> construction \<Rightarrow> construction \<Rightarrow> state \<Rightarrow> completion" where
  "callAction now constructLocal constructRemote s =
     (let s = s\<lparr>callButton_disabled := True\<rparr>;
          s = s\<lparr>hangupButton_disabled := False\<rparr>;
          s = trace ''Starting call'' s;
          s = s\<lparr>startTime := Some now\<rparr>
      in case localStream s of
           None \<Rightarrow> Throws (cannot_read Undefined ''getVideoTracks'') s
         | Some stream \<Rightarrow>
             (let videoTracks = getVideoTracks stream;
                  audioTracks = getAudioTracks stream;
                  s = (if length videoTracks > 0
                       then trace (''Using video device: '' @ label (videoTracks ! 0) @ ''.'') s
                       else s);
                  s = (if length audioTracks > 0
                       then trace (''Using audio device: '' @ label (audioTracks ! 0)) s
                       else s)
              in case new_RTCPeerConnection constructLocal s of
                   Inl error \<Rightarrow> Throws error s
                 | Inr (local, s) \<Rightarrow>
                     (let s = s\<lparr>localPeerConnection := Obj local\<rparr>;
                          s = trace ''Created local peer connection object localPeerConnection.'' s
                      in case new_RTCPeerConnection constructRemote s of
                           Inl error \<Rightarrow> Throws error s
                         | Inr (remote, s) \<Rightarrow>
                             (let s = s\<lparr>remotePeerConnection := Obj remote\<rparr>;
                                  s = trace ''Created remote peer connection object remotePeerConnection.'' s;
                                  s = fold (\<lambda>track. addTrack local track) (getTracks stream) s;
                                  s = trace ''Added local stream to localPeerConnection.'' s;
                                  s = trace ''localPeerConnection createOffer start.'' s
                              in Normal (suspend (CreateOffer local, K_callAction) s)))))"

text \<open>
  \<^verbatim>\<open>hangupAction\<close>. Lines 264 and 265 read a property of the two variables outside
  every \<^verbatim>\<open>try\<close>.
\<close>

definition hangupAction :: "state \<Rightarrow> completion" where
  "hangupAction s =
     (case localPeerConnection s of
        Obj local \<Rightarrow>
          (let s = close local s
           in case remotePeerConnection s of
                Obj remote \<Rightarrow>
                  (let s = close remote s;
                       s = s\<lparr>localPeerConnection := Null\<rparr>;
                       s = s\<lparr>remotePeerConnection := Null\<rparr>;
                       s = s\<lparr>hangupButton_disabled := True\<rparr>;
                       s = s\<lparr>callButton_disabled := False\<rparr>
                   in Normal (trace ''Ending call.'' s))
              | r \<Rightarrow> Throws (cannot_read r ''close'') s)
      | r \<Rightarrow> Throws (cannot_read r ''close'') s)"

subsection \<open>Resuming after an \<^verbatim>\<open>await\<close>\<close>

text \<open>
  The rest of each \<^verbatim>\<open>async\<close> function from the place it waited at, up to its next
  \<^verbatim>\<open>await\<close> or its end. A call of another \<^verbatim>\<open>async\<close> function (\<^verbatim>\<open>createdOffer\<close>,
  \<^verbatim>\<open>createdAnswer\<close>) runs that function up to its first \<^verbatim>\<open>await\<close>. The last equation
  covers the outcomes that a promise of the call's type cannot have.
\<close>

fun resume :: "cont \<Rightarrow> outcome \<Rightarrow> state \<Rightarrow> state" where
  "resume K_startAction (FulfilledStream stream) s = gotLocalMediaStream stream s"
| "resume K_startAction (Rejected error) s = handleLocalMediaStreamError error s"
| "resume K_callAction (FulfilledDescription description) s =
     createdOffer description s"
| "resume K_callAction (Rejected error) s = setSessionDescriptionError error s"
| "resume (K_createdOffer1 description) Fulfilled s =
     createdOffer_try2 description (setLocalDescriptionSuccess (localPeerConnection s) s)"
| "resume (K_createdOffer1 description) (Rejected error) s =
     createdOffer_try2 description (setSessionDescriptionError error s)"
| "resume (K_createdOffer2 description) Fulfilled s =
     createdOffer_try3 (setRemoteDescriptionSuccess (remotePeerConnection s) s)"
| "resume (K_createdOffer2 description) (Rejected error) s =
     createdOffer_try3 (setSessionDescriptionError error s)"
| "resume K_createdOffer3 (FulfilledDescription description) s =
     createdAnswer description s"
| "resume K_createdOffer3 (Rejected error) s = setSessionDescriptionError error s"
| "resume (K_createdAnswer1 description) Fulfilled s =
     createdAnswer_try2 description (setLocalDescriptionSuccess (remotePeerConnection s) s)"
| "resume (K_createdAnswer1 description) (Rejected error) s =
     createdAnswer_try2 description (setSessionDescriptionError error s)"
| "resume (K_createdAnswer2 description) Fulfilled s =
     setRemoteDescriptionSuccess (localPeerConnection s) s"
| "resume (K_createdAnswer2 description) (Rejected error) s =
     setSessionDescriptionError error s"
| "resume (K_handleConnection target iceCandidate) Fulfilled s =
     handleConnection_end target iceCandidate (handleConnectionSuccess (Obj target) s)"
| "resume (K_handleConnection target iceCandidate) (Rejected error) s =
     handleConnection_end target iceCandidate (handleConnectionFailure (Obj target) error s)"
| "resume k out s = s"

text \<open>
  The platform settles the promise of a pending task: the task is no longer pending, the
  call has had its effect, and the function that waited goes on.
\<close>

definition settle :: "task \<Rightarrow> outcome \<Rightarrow> state \<Rightarrow> state" where
  "settle t out s =
     resume (snd t) out (effect (fst t) out (s\<lparr>pending := remove1 t (pending s)\<rparr>))"

subsection \<open>Events\<close>

text \<open>
  What can happen to the page: a click on one of the three buttons (lines 274 to 276), an
  event of a peer connection that \<^verbatim>\<open>callAction\<close> has created and listens to (lines 238
  to 246; the event's target is the address of an existing peer connection, and a track
  event is taken from either connection, though only the remote one is listened to), or
  the settling of a pending promise with an outcome of its type. A click on call comes
  with the outcomes of the two constructor calls that \<^verbatim>\<open>callAction\<close> makes. A disabled button dispatches
  no click. An error that a handler throws, or that rejects the promise of an
  \<^verbatim>\<open>async\<close> handler, is caught by nobody: it is reported and the page goes on.
\<close>

datatype event =
    Click_start
  | Click_call timestamp construction construction
  | Click_hangup
  | Icecandidate nat "ice_candidate option"
  | Iceconnectionstatechange nat string
  | Track_event nat "media_stream list"
  | Settle task outcome

fun report :: "completion \<Rightarrow> state" where
  "report (Normal s) = s"
| "report (Throws e s) = s\<lparr>uncaught := uncaught s @ [e]\<rparr>"

fun step :: "event \<Rightarrow> state \<Rightarrow> state" where
  "step Click_start s = (if startButton_disabled s then s else startAction s)"
| "step (Click_call now constructLocal constructRemote) s =
     (if callButton_disabled s then s
      else report (callAction now constructLocal constructRemote s))"
| "step Click_hangup s = (if hangupButton_disabled s then s else report (hangupAction s))"
| "step (Icecandidate target c) s =
     (if target < length (heap s) then handleConnection target c s else s)"
| "step (Iceconnectionstatechange target st) s =
     (if target < length (heap s)
      then handleConnectionChange target
             (s\<lparr>heap := (heap s)[target := (heap s ! target)\<lparr>iceConnectionState := st\<rparr>]\<rparr>)
      else s)"
| "step (Track_event target streams) s =
     (if target < length (heap s) then gotRemoteMediaStream streams s else s)"
| "step (Settle t out) s =
     (if t \<in> set (pending s) \<and> fits (fst t) out then settle t out s else s)"

text \<open>The page after a sequence of events, the first event first.\<close>

fun run :: "event list \<Rightarrow> state \<Rightarrow> state" where
  "run [] s = s"
| "run (e # es) s = run es (step e s)"

subsection \<open>The states the page can reach\<close>

text \<open>
  The variables and buttons that decide which handler runs and whether it throws. The
  logging functions and the platform's effects leave them alone.
\<close>

definition controls :: "state \<Rightarrow> media_stream option \<times> ref \<times> ref \<times> bool \<times> bool \<times> bool \<times> js_error list" where
  "controls s = (localStream s, localPeerConnection s, remotePeerConnection s,
     startButton_disabled s, callButton_disabled s, hangupButton_disabled s, uncaught s)"

fun is_obj :: "ref \<Rightarrow> bool" where
  "is_obj (Obj a) = True"
| "is_obj r = False"

text \<open>
  What holds in every state the page reaches from \<open>init\<close>: the call button is enabled
  only with a local stream, and a local peer connection exists only with a local stream.
\<close>

definition gated :: "state \<Rightarrow> bool" where
  "gated s \<longleftrightarrow>
     (\<not> callButton_disabled s \<longrightarrow> localStream s \<noteq> None)
     \<and> (is_obj (localPeerConnection s) \<longrightarrow> localStream s \<noteq> None)"

text \<open>
  Also in every state the page reaches: the two variables hold existing peer connections,
  if any, and never the same one.
\<close>

fun in_heap :: "ref \<Rightarrow> state \<Rightarrow> bool" where
  "in_heap (Obj a) s = (a < length (heap s))"
| "in_heap r s = True"

definition apart :: "state \<Rightarrow> bool" where
  "apart s \<longleftrightarrow>
     in_heap (localPeerConnection s) s \<and> in_heap (remotePeerConnection s) s
     \<and> (localPeerConnection s = remotePeerConnection s \<longrightarrow> \<not> is_obj (localPeerConnection s))"

text \<open>
  \<^verbatim>\<open>callAction\<close> enables the hangup button on line 215, before it creates the peer
  connections. As long as no constructor has thrown, nothing was thrown uncaught and the
  hangup button is enabled only with two peer connections.
\<close>

fun constructs :: "event \<Rightarrow> bool" where
  "constructs (Click_call now constructLocal constructRemote) =
     (constructLocal = Constructed \<and> constructRemote = Constructed)"
| "constructs e = True"

definition unbroken :: "state \<Rightarrow> bool" where
  "unbroken s \<longleftrightarrow>
     uncaught s = []
     \<and> (\<not> hangupButton_disabled s \<longrightarrow>
          is_obj (localPeerConnection s) \<and> is_obj (remotePeerConnection s))"

subsection \<open>A sample session\<close>

text \<open>
  The values of the specification's scenarios: a stream with one video track, the offer
  \<^verbatim>\<open>O1\<close>, the answer \<^verbatim>\<open>A1\<close> and the candidate \<^verbatim>\<open>c1\<close>; and the page after a click
  on start, the stream's arrival and a click on call.
\<close>

definition camera_stream :: media_stream where
  "camera_stream = \<lparr>stream_id = ''stream'', tracks = [\<lparr>kind = Video, label = ''camera''\<rparr>]\<rparr>"

definition offer_O1 :: description where
  "offer_O1 = \<lparr>desc_type = Offer, sdp = ''O1''\<rparr>"

definition answer_A1 :: description where
  "answer_A1 = \<lparr>desc_type = Answer, sdp = ''A1''\<rparr>"

definition candidate_c1 :: ice_candidate where
  "candidate_c1 = \<lparr>candidate = ''c1'', sdpMid = ''0'', sdpMLineIndex = 0\<rparr>"

definition calling :: state where
  "calling =
     run [Click_start, Settle (GetUserMedia, K_startAction) (FulfilledStream camera_stream),
          Click_call 0 Constructed Constructed] init"

subsection \<open>A session under way\<close>

text \<open>
  Between a call and a hangup the two variables hold two different peer connections,
  \<open>l\<close> the local one and \<open>r\<close> the remote one, both created by \<^verbatim>\<open>callAction\<close>.
\<close>

definition live :: "nat \<Rightarrow> nat \<Rightarrow> state \<Rightarrow> bool" where
  "live l r s \<longleftrightarrow>
     localPeerConnection s = Obj l \<and> remotePeerConnection s = Obj r \<and> l \<noteq> r
     \<and> l < length (heap s) \<and> r < length (heap s)"

text \<open>
  More of the sample session: an error that a promise is rejected with, and the page when
  the offer has been created and set on the local side.
\<close>

definition rejection :: js_error where
  "rejection = \<lparr>err_name = ''OperationError'', err_message = ''failed''\<rparr>"

definition offered :: state where
  "offered =
     run [Settle (CreateOffer 0, K_callAction) (FulfilledDescription offer_O1),
          Settle (SetLocalDescription 0 offer_O1, K_createdOffer1 offer_O1) Fulfilled] calling"

subsection \<open>Events beside a handshake\<close>

text \<open>
  The events that may come between the steps of a handshake without belonging to it: a
  click on start, the events of the peer connections, and the settling of the stream
  request or of a relayed candidate. Clicks on call and hangup replace the peer
  connections, so they are not among them.
\<close>

fun bystander :: "event \<Rightarrow> bool" where
  "bystander Click_start = True"
| "bystander (Icecandidate a c) = True"
| "bystander (Iceconnectionstatechange a st) = True"
| "bystander (Track_event a streams) = True"
| "bystander (Settle (GetUserMedia, K_startAction) out) = True"
| "bystander (Settle (AddIceCandidate a c, K_handleConnection b c') out) = True"
| "bystander e = False"

text \<open>The tasks of \<^verbatim>\<open>callAction\<close>, \<^verbatim>\<open>createdOffer\<close> and \<^verbatim>\<open>createdAnswer\<close>.\<close>

fun handshake_cont :: "cont \<Rightarrow> bool" where
  "handshake_cont K_startAction = False"
| "handshake_cont (K_handleConnection a c) = False"
| "handshake_cont k = True"

text \<open>The local and the remote description of each peer connection.\<close>

definition descs :: "peer_connection list \<Rightarrow> (description option \<times> description option) list" where
  "descs h = map (\<lambda>p. (localDescription p, remoteDescription p)) h"

text \<open>
  A handshake between \<open>l\<close> and \<open>r\<close> that waits for the task \<open>t\<close>, with the descriptions
  \<open>D\<close> set so far.
\<close>

definition at_stage ::
  "nat \<Rightarrow> nat \<Rightarrow> (description option \<times> description option) list \<Rightarrow> task \<Rightarrow> state \<Rightarrow> bool" where
  "at_stage l r D t s \<longleftrightarrow> live l r s \<and> descs (heap s) = D \<and> t \<in> set (pending s)"

text \<open>
  The handshake of the sample session, all steps fulfilled, with a candidate of the local
  peer connection relayed on the way.
\<close>

definition sample_handshake :: "event list" where
  "sample_handshake =
     [Settle (CreateOffer 0, K_callAction) (FulfilledDescription offer_O1),
      Icecandidate 0 (Some candidate_c1),
      Settle (SetLocalDescription 0 offer_O1, K_createdOffer1 offer_O1) Fulfilled,
      Settle (SetRemoteDescription 1 offer_O1, K_createdOffer2 offer_O1) Fulfilled,
      Settle (AddIceCandidate 1 candidate_c1, K_handleConnection 0 candidate_c1) Fulfilled,
      Settle (CreateAnswer 1, K_createdOffer3) (FulfilledDescription answer_A1),
      Settle (SetLocalDescription 1 answer_A1, K_createdAnswer1 answer_A1) Fulfilled,
      Settle (SetRemoteDescription 0 answer_A1, K_createdAnswer2 answer_A1) Fulfilled]"

text \<open>Every event but the clicks on call and hangup, which end or replace the session.\<close>

fun within_session :: "event \<Rightarrow> bool" where
  "within_session (Click_call now constructLocal constructRemote) = False"
| "within_session Click_hangup = False"
| "within_session e = True"

section \<open>Properties\<close>

subsection \<open>What leaves the variables and buttons alone\<close>

lemmas script_defs = init_def camera_stream_def offer_O1_def answer_A1_def candidate_c1_def
  startAction_def callAction_def hangupAction_def settle_def Let_def trace_def suspend_def
  gotLocalMediaStream_def new_RTCPeerConnection_def addTrack_def close_def
  getTracks_def getVideoTracks_def getAudioTracks_def fresh_peer_connection_def trim_def
  is_space_def split_def cannot_read_def

lemma controls_trace [simp]: "controls (trace text s) = controls s"
  by (simp add: controls_def trace_def)

lemma controls_suspend [simp]: "controls (suspend t s) = controls s"
  by (simp add: controls_def suspend_def)

lemma controls_effect [simp]: "controls (effect c out s) = controls s"
  by (cases "(c, out, s)" rule: effect.cases) (simp_all add: controls_def)

lemma controls_pending [simp]: "controls (s\<lparr>pending := p\<rparr>) = controls s"
  by (simp add: controls_def)

lemma controls_heap [simp]: "controls (s\<lparr>heap := h\<rparr>) = controls s"
  by (simp add: controls_def)

lemma controls_console [simp]: "controls (s\<lparr>console := p\<rparr>) = controls s"
  by (simp add: controls_def)

lemma controls_setSessionDescriptionError [simp]:
  "controls (setSessionDescriptionError e s) = controls s"
  by (simp add: setSessionDescriptionError_def)

lemma controls_setDescriptionSuccess [simp]:
  "controls (setDescriptionSuccess pc f s) = controls s"
  by (simp add: Let_def setDescriptionSuccess_def)

lemma controls_handleConnectionSuccess [simp]:
  "controls (handleConnectionSuccess pc s) = controls s"
  by (simp add: handleConnectionSuccess_def)

lemma controls_handleConnectionFailure [simp]:
  "controls (handleConnectionFailure pc e s) = controls s"
  by (simp add: handleConnectionFailure_def)

lemma controls_handleConnection_end [simp]:
  "controls (handleConnection_end a c s) = controls s"
  by (simp add: handleConnection_end_def)

lemma controls_handleConnection [simp]:
  "controls (handleConnection a c s) = controls s"
  by (simp add: Let_def handleConnection_def split: option.splits ref.splits)

lemma controls_createdAnswer_try2 [simp]: "controls (createdAnswer_try2 d s) = controls s"
  by (simp add: Let_def createdAnswer_try2_def split: ref.splits)

lemma controls_createdAnswer_try1 [simp]: "controls (createdAnswer_try1 d s) = controls s"
  by (simp add: Let_def createdAnswer_try1_def split: ref.splits)

lemma controls_createdAnswer [simp]: "controls (createdAnswer d s) = controls s"
  by (simp add: Let_def createdAnswer_def)

lemma controls_createdOffer_try3 [simp]: "controls (createdOffer_try3 s) = controls s"
  by (simp add: Let_def createdOffer_try3_def split: ref.splits)

lemma controls_createdOffer_try2 [simp]: "controls (createdOffer_try2 d s) = controls s"
  by (simp add: Let_def createdOffer_try2_def split: ref.splits)

lemma controls_createdOffer_try1 [simp]: "controls (createdOffer_try1 d s) = controls s"
  by (simp add: Let_def createdOffer_try1_def split: ref.splits)

lemma controls_createdOffer [simp]: "controls (createdOffer d s) = controls s"
  by (simp add: Let_def createdOffer_def)

lemma controls_resume:
  "k \<noteq> K_startAction \<Longrightarrow> controls (resume k out s) = controls s"
  by (cases "(k, out, s)" rule: resume.cases)
     (simp_all add: setLocalDescriptionSuccess_def setRemoteDescriptionSuccess_def)

lemma gated_controls: "controls s' = controls s \<Longrightarrow> gated s' = gated s"
  by (simp add: gated_def controls_def)

lemma controls_addTrack [simp]: "controls (addTrack a t s) = controls s"
  by (simp add: controls_def addTrack_def)

lemma controls_fold_addTrack [simp]: "controls (fold (addTrack a) ts s) = controls s"
  by (induction ts arbitrary: s) simp_all

lemma controls_close [simp]: "controls (close a s) = controls s"
  by (simp add: controls_def close_def)

lemma controls_startAction:
  "controls (startAction s) = controls (s\<lparr>startButton_disabled := True\<rparr>)"
  by (simp add: startAction_def Let_def controls_def trace_def suspend_def)

lemma controls_gotLocalMediaStream:
  "controls (gotLocalMediaStream m s) =
     controls (s\<lparr>localStream := Some m, callButton_disabled := False\<rparr>)"
  by (simp add: gotLocalMediaStream_def Let_def controls_def trace_def)

lemma controls_handleLocalMediaStreamError [simp]:
  "controls (handleLocalMediaStreamError e s) = controls s"
  by (simp add: handleLocalMediaStreamError_def)

lemma controls_gotRemoteMediaStream [simp]:
  "controls (gotRemoteMediaStream ms s) = controls s"
  by (simp add: gotRemoteMediaStream_def Let_def controls_def trace_def)

lemma controls_handleConnectionChange [simp]:
  "controls (handleConnectionChange a s) = controls s"
  by (simp add: handleConnectionChange_def Let_def)

lemma callAction_started:
  assumes "localStream s = Some m"
  shows "\<exists>s'. callAction now Constructed Constructed s = Normal s'
           \<and> controls s' = controls (s\<lparr>callButton_disabled := True, hangupButton_disabled := False,
                 localPeerConnection := Obj (length (heap s)),
                 remotePeerConnection := Obj (Suc (length (heap s)))\<rparr>)"
  using assms
  apply (simp add: callAction_def Let_def new_RTCPeerConnection_def split_def trace_def)
  apply (simp add: controls_def suspend_def)
  done

lemma callAction_no_stream:
  assumes "localStream s = None"
  shows "\<exists>s'. callAction now constructLocal constructRemote s
             = Throws (cannot_read Undefined ''getVideoTracks'') s'
           \<and> controls s' = controls (s\<lparr>callButton_disabled := True, hangupButton_disabled := False\<rparr>)
           \<and> heap s' = heap s"
  using assms by (simp add: callAction_def Let_def trace_def controls_def)

lemma callAction_local_throws:
  assumes "localStream s = Some m"
  shows "\<exists>s'. callAction now (Construction_throws e) constructRemote s = Throws e s'
           \<and> controls s' = controls (s\<lparr>callButton_disabled := True, hangupButton_disabled := False\<rparr>)
           \<and> heap s' = heap s"
  using assms
  by (simp add: callAction_def Let_def new_RTCPeerConnection_def trace_def controls_def)

lemma callAction_remote_throws:
  assumes "localStream s = Some m"
  shows "\<exists>s'. callAction now Constructed (Construction_throws e) s = Throws e s'
           \<and> controls s' = controls (s\<lparr>callButton_disabled := True, hangupButton_disabled := False,
                 localPeerConnection := Obj (length (heap s))\<rparr>)
           \<and> heap s' = heap s @ [fresh_peer_connection]"
  using assms
  by (simp add: callAction_def Let_def new_RTCPeerConnection_def trace_def controls_def)

lemma hangupAction_live:
  assumes "localPeerConnection s = Obj l" and "remotePeerConnection s = Obj r"
  shows "\<exists>s'. hangupAction s = Normal s'
           \<and> controls s' = controls (s\<lparr>localPeerConnection := Null, remotePeerConnection := Null,
                 hangupButton_disabled := True, callButton_disabled := False\<rparr>)"
  using assms
  apply (simp add: hangupAction_def Let_def close_def trace_def)
  apply (simp add: controls_def)
  done

lemma hangupAction_Normal:
  assumes "hangupAction s = Normal s'"
  shows "\<exists>l r. localPeerConnection s = Obj l \<and> remotePeerConnection s = Obj r"
  using assms
  by (auto simp: hangupAction_def Let_def close_def split: ref.splits)

lemma hangupAction_throws:
  assumes "hangupAction s = Throws e s'"
  shows "localStream s' = localStream s \<and> localPeerConnection s' = localPeerConnection s
     \<and> remotePeerConnection s' = remotePeerConnection s
     \<and> callButton_disabled s' = callButton_disabled s
     \<and> length (heap s') = length (heap s)"
  using assms
  by (auto simp: hangupAction_def Let_def close_def split: ref.splits)

lemma is_obj_iff: "is_obj r \<longleftrightarrow> (\<exists>a. r = Obj a)"
  by (cases r) simp_all

lemma gated_frame: "controls s' = controls s \<Longrightarrow> gated s \<Longrightarrow> gated s'"
  by (simp add: gated_def controls_def)

lemma gated_uncaught [simp]: "gated (s\<lparr>uncaught := u\<rparr>) = gated s"
  by (simp add: gated_def)

lemma gated_init: "gated init"
  by (simp add: gated_def init_def)

lemma gated_settle:
  assumes g: "gated s"
  shows "gated (settle t out s)"
proof (cases "snd t = K_startAction")
  case False
  then have "controls (settle t out s) = controls s"
    by (simp add: settle_def controls_resume)
  then show ?thesis
    using g by (rule gated_frame)
next
  case True
  show ?thesis
  proof (cases out)
    case (FulfilledStream m)
    with True have "controls (settle t out s)
        = controls (s\<lparr>localStream := Some m, callButton_disabled := False\<rparr>)"
      by (simp add: settle_def controls_gotLocalMediaStream) (simp add: controls_def)
    then have "gated (settle t out s)
        = gated (s\<lparr>localStream := Some m, callButton_disabled := False\<rparr>)"
      by (rule gated_controls)
    then show ?thesis by (simp add: gated_def)
  next
    case (Rejected e)
    with True have "controls (settle t out s) = controls s"
      by (simp add: settle_def)
    then show ?thesis using g by (rule gated_frame)
  next
    case Fulfilled
    with True have "controls (settle t out s) = controls s"
      by (simp add: settle_def)
    then show ?thesis using g by (rule gated_frame)
  next
    case (FulfilledDescription d)
    with True have "controls (settle t out s) = controls s"
      by (simp add: settle_def)
    then show ?thesis using g by (rule gated_frame)
  qed
qed

lemma gated_callAction:
  assumes g: "gated s"
  shows "gated (report (callAction now constructLocal constructRemote s))"
proof (cases "localStream s")
  case None
  from callAction_no_stream [OF None, of now constructLocal constructRemote] obtain s' where
    s': "callAction now constructLocal constructRemote s
           = Throws (cannot_read Undefined ''getVideoTracks'') s'" and
    c: "controls s' = controls (s\<lparr>callButton_disabled := True, hangupButton_disabled := False\<rparr>)"
    by blast
  from c have "gated s' = gated (s\<lparr>callButton_disabled := True, hangupButton_disabled := False\<rparr>)"
    by (rule gated_controls)
  with g have "gated s'" by (simp add: gated_def)
  with s' show ?thesis by simp
next
  case (Some m)
  show ?thesis
  proof (cases constructLocal)
    case (Construction_throws e)
    from callAction_local_throws [OF Some, of now e constructRemote] obtain s' where
      s': "callAction now (Construction_throws e) constructRemote s = Throws e s'" and
      c: "controls s' = controls (s\<lparr>callButton_disabled := True, hangupButton_disabled := False\<rparr>)"
      by blast
    from c have "gated s' = gated (s\<lparr>callButton_disabled := True, hangupButton_disabled := False\<rparr>)"
      by (rule gated_controls)
    with g have "gated s'" by (simp add: gated_def)
    with s' Construction_throws show ?thesis by simp
  next
    case Constructed
    note cl = this
    show ?thesis
    proof (cases constructRemote)
      case (Construction_throws e)
      from callAction_remote_throws [OF Some, of now e] obtain s' where
        s': "callAction now Constructed (Construction_throws e) s = Throws e s'" and
        c: "controls s' = controls (s\<lparr>callButton_disabled := True, hangupButton_disabled := False,
                 localPeerConnection := Obj (length (heap s))\<rparr>)"
        by blast
      from c have "gated s' = gated (s\<lparr>callButton_disabled := True, hangupButton_disabled := False,
                 localPeerConnection := Obj (length (heap s))\<rparr>)"
        by (rule gated_controls)
      with Some have "gated s'" by (simp add: gated_def)
      with s' cl Construction_throws show ?thesis by simp
    next
      case Constructed
      from callAction_started [OF Some, of now] obtain s' where
        s': "callAction now Constructed Constructed s = Normal s'" and
        c: "controls s' = controls (s\<lparr>callButton_disabled := True, hangupButton_disabled := False,
                 localPeerConnection := Obj (length (heap s)),
                 remotePeerConnection := Obj (Suc (length (heap s)))\<rparr>)" by blast
      from c have "gated s' = gated (s\<lparr>callButton_disabled := True, hangupButton_disabled := False,
                 localPeerConnection := Obj (length (heap s)),
                 remotePeerConnection := Obj (Suc (length (heap s)))\<rparr>)"
        by (rule gated_controls)
      with Some have "gated s'" by (simp add: gated_def)
      with s' cl Constructed show ?thesis by simp
    qed
  qed
qed

lemma gated_hangupAction:
  assumes g: "gated s"
  shows "gated (report (hangupAction s))"
proof (cases "hangupAction s")
  case (Throws e s')
  from hangupAction_throws [OF Throws] g have "gated s'"
    by (simp add: gated_def)
  with Throws show ?thesis by simp
next
  case (Normal s')
  then obtain l r where lr: "localPeerConnection s = Obj l" "remotePeerConnection s = Obj r"
    using hangupAction_Normal by blast
  from hangupAction_live [OF lr] Normal have
    c: "controls s' = controls (s\<lparr>localPeerConnection := Null, remotePeerConnection := Null,
                 hangupButton_disabled := True, callButton_disabled := False\<rparr>)" by simp
  from c have "gated s' = gated (s\<lparr>localPeerConnection := Null, remotePeerConnection := Null,
                 hangupButton_disabled := True, callButton_disabled := False\<rparr>)"
    by (rule gated_controls)
  with g lr have "gated s'" by (simp add: gated_def)
  with Normal show ?thesis by simp
qed

lemma gated_step:
  assumes g: "gated s"
  shows "gated (step e s)"
proof (cases e)
  case Click_start
  have "gated (startAction s) = gated (s\<lparr>startButton_disabled := True\<rparr>)"
    using controls_startAction by (rule gated_controls)
  with g Click_start show ?thesis
    by (simp add: gated_def)
next
  case (Click_call now constructLocal constructRemote)
  with g gated_callAction [OF g, of now constructLocal constructRemote] show ?thesis by simp
next
  case Click_hangup
  with g gated_hangupAction [OF g] show ?thesis by simp
next
  case (Icecandidate a c)
  then have "controls (step e s) = controls s" by simp
  then show ?thesis using g by (rule gated_frame)
next
  case (Iceconnectionstatechange a st)
  then have "controls (step e s) = controls s" by simp
  then show ?thesis using g by (rule gated_frame)
next
  case (Track_event a ms)
  then have "controls (step e s) = controls s" by simp
  then show ?thesis using g by (rule gated_frame)
next
  case (Settle t out)
  with g show ?thesis by (simp add: gated_settle)
qed

lemma gated_run: "gated s \<Longrightarrow> gated (run es s)"
  by (induction es arbitrary: s) (simp_all add: gated_step)

subsection \<open>As long as no constructor throws\<close>

lemma unbroken_frame: "controls s' = controls s \<Longrightarrow> unbroken s \<Longrightarrow> unbroken s'"
  by (simp add: unbroken_def controls_def)

lemma unbroken_controls: "controls s' = controls s \<Longrightarrow> unbroken s' = unbroken s"
  by (simp add: unbroken_def controls_def)

lemma unbroken_init: "unbroken init"
  by (simp add: unbroken_def init_def)

lemma unbroken_step:
  assumes c: "constructs e" and g: "gated s" and u: "unbroken s"
  shows "unbroken (step e s)"
proof (cases e)
  case Click_start
  have "unbroken (startAction s) = unbroken (s\<lparr>startButton_disabled := True\<rparr>)"
    using controls_startAction by (rule unbroken_controls)
  with u Click_start show ?thesis
    by (simp add: unbroken_def)
next
  case (Click_call now constructLocal constructRemote)
  with c have cc: "constructLocal = Constructed" "constructRemote = Constructed" by simp_all
  show ?thesis
  proof (cases "callButton_disabled s")
    case True
    with u Click_call show ?thesis by simp
  next
    case False
    with g obtain m where m: "localStream s = Some m" by (auto simp: gated_def)
    from callAction_started [OF m, of now] obtain s' where
      s': "callAction now Constructed Constructed s = Normal s'" and
      k: "controls s' = controls (s\<lparr>callButton_disabled := True, hangupButton_disabled := False,
                 localPeerConnection := Obj (length (heap s)),
                 remotePeerConnection := Obj (Suc (length (heap s)))\<rparr>)" by blast
    from k have "unbroken s' = unbroken (s\<lparr>callButton_disabled := True, hangupButton_disabled := False,
                 localPeerConnection := Obj (length (heap s)),
                 remotePeerConnection := Obj (Suc (length (heap s)))\<rparr>)"
      by (rule unbroken_controls)
    with u have "unbroken s'" by (simp add: unbroken_def)
    with s' False Click_call cc show ?thesis by simp
  qed
next
  case Click_hangup
  show ?thesis
  proof (cases "hangupButton_disabled s")
    case True
    with u Click_hangup show ?thesis by simp
  next
    case False
    with u obtain l r where lr: "localPeerConnection s = Obj l" "remotePeerConnection s = Obj r"
      by (auto simp: unbroken_def is_obj_iff)
    from hangupAction_live [OF lr] obtain s' where
      s': "hangupAction s = Normal s'" and
      k: "controls s' = controls (s\<lparr>localPeerConnection := Null, remotePeerConnection := Null,
                 hangupButton_disabled := True, callButton_disabled := False\<rparr>)" by blast
    from k have "unbroken s' = unbroken (s\<lparr>localPeerConnection := Null, remotePeerConnection := Null,
                 hangupButton_disabled := True, callButton_disabled := False\<rparr>)"
      by (rule unbroken_controls)
    with u have "unbroken s'" by (simp add: unbroken_def)
    with s' False Click_hangup show ?thesis by simp
  qed
next
  case (Icecandidate a c)
  then have "controls (step e s) = controls s" by simp
  then show ?thesis using u by (rule unbroken_frame)
next
  case (Iceconnectionstatechange a st)
  then have "controls (step e s) = controls s" by simp
  then show ?thesis using u by (rule unbroken_frame)
next
  case (Track_event a ms)
  then have "controls (step e s) = controls s" by simp
  then show ?thesis using u by (rule unbroken_frame)
next
  case (Settle t out)
  show ?thesis
  proof (cases "snd t = K_startAction")
    case False
    then have "controls (settle t out s) = controls s"
      by (simp add: settle_def controls_resume)
    then have "unbroken (settle t out s)" using u by (rule unbroken_frame)
    with u Settle show ?thesis by simp
  next
    case True
    have "unbroken (settle t out s)"
    proof (cases out)
      case (FulfilledStream m)
      with True have "controls (settle t out s)
          = controls (s\<lparr>localStream := Some m, callButton_disabled := False\<rparr>)"
        by (simp add: settle_def controls_gotLocalMediaStream) (simp add: controls_def)
      then have "unbroken (settle t out s)
          = unbroken (s\<lparr>localStream := Some m, callButton_disabled := False\<rparr>)"
        by (rule unbroken_controls)
      with u show ?thesis by (simp add: unbroken_def)
    next
      case (Rejected err)
      with True have "controls (settle t out s) = controls s"
        by (simp add: settle_def)
      then show ?thesis using u by (rule unbroken_frame)
    next
      case Fulfilled
      with True have "controls (settle t out s) = controls s"
        by (simp add: settle_def)
      then show ?thesis using u by (rule unbroken_frame)
    next
      case (FulfilledDescription d)
      with True have "controls (settle t out s) = controls s"
        by (simp add: settle_def)
      then show ?thesis using u by (rule unbroken_frame)
    qed
    with u Settle show ?thesis by simp
  qed
qed

lemma unbroken_run:
  assumes "list_all constructs es" and "gated s" and "unbroken s"
  shows "unbroken (run es s)"
  using assms
proof (induction es arbitrary: s)
  case Nil
  then show ?case by simp
next
  case (Cons e es)
  then have e: "constructs e" and es: "list_all constructs es" by simp_all
  from unbroken_step [OF e Cons.prems(2,3)] gated_step [OF Cons.prems(2), of e] es
  show ?case by (simp add: Cons.IH)
qed

subsection \<open>A page with nothing enabled and nothing pending\<close>

lemma frozen_step:
  assumes "startButton_disabled s" "callButton_disabled s" "hangupButton_disabled s"
    "heap s = []" "pending s = []"
  shows "step e s = s"
  using assms by (cases e) simp_all

lemma frozen_run:
  assumes "startButton_disabled s" "callButton_disabled s" "hangupButton_disabled s"
    "heap s = []" "pending s = []"
  shows "run es s = s"
  using assms by (induction es) (simp_all add: frozen_step)

subsection \<open>The candidate relay\<close>

text \<open>
  C8. A candidate event that carries no candidate (the end-of-candidates marker) relays
  nothing: \<^verbatim>\<open>handleConnection\<close> returns the state as it was, so no platform call is
  made, no task is left pending and no peer connection changes.
\<close>

theorem end_of_candidates_is_no_relay:
  "handleConnection target None s = s \<and> step (Icecandidate target None) s = s"
  by (simp add: handleConnection_def)

subsection \<open>The start button\<close>

text \<open>
  C9. The start button is disabled before the stream is requested, and a rejected request
  only logs: the start button stays disabled, the call button and \<^verbatim>\<open>localStream\<close> are
  as they were, and a further click on start does nothing. On a page that has just loaded,
  nothing that happens after the failed start changes the state again: the start and
  call buttons stay disabled for good.
\<close>

theorem failed_start_cannot_be_retried:
  "startButton_disabled (startAction s)
   \<and> (GetUserMedia, K_startAction) \<in> set (pending (startAction s))
   \<and> startButton_disabled (settle (GetUserMedia, K_startAction) (Rejected e) (startAction s))
   \<and> callButton_disabled (settle (GetUserMedia, K_startAction) (Rejected e) (startAction s))
       = callButton_disabled s
   \<and> localStream (settle (GetUserMedia, K_startAction) (Rejected e) (startAction s)) = localStream s
   \<and> step Click_start (settle (GetUserMedia, K_startAction) (Rejected e) (startAction s))
       = settle (GetUserMedia, K_startAction) (Rejected e) (startAction s)
   \<and> run (Click_start # Settle (GetUserMedia, K_startAction) (Rejected e) # es) init
       = run [Click_start, Settle (GetUserMedia, K_startAction) (Rejected e)] init
   \<and> startButton_disabled (run [Click_start, Settle (GetUserMedia, K_startAction) (Rejected e)] init)
   \<and> callButton_disabled (run [Click_start, Settle (GetUserMedia, K_startAction) (Rejected e)] init)"
proof -
  let ?t = "(GetUserMedia, K_startAction)"
  let ?s1 = "startAction s"
  let ?s2 = "settle ?t (Rejected e) ?s1"
  have 1: "startButton_disabled ?s1" "?t \<in> set (pending ?s1)"
    by (simp_all add: startAction_def Let_def suspend_def trace_def)
  have 2: "startButton_disabled ?s2" "callButton_disabled ?s2 = callButton_disabled s"
    "localStream ?s2 = localStream s"
    by (simp_all add: settle_def startAction_def Let_def suspend_def trace_def
        handleLocalMediaStreamError_def)
  from 2(1) have 3: "step Click_start ?s2 = ?s2" by simp
  let ?f = "run [Click_start, Settle ?t (Rejected e)] init"
  have f: "startButton_disabled ?f" "callButton_disabled ?f" "hangupButton_disabled ?f"
    "heap ?f = []" "pending ?f = []"
    by (simp_all add: init_def settle_def startAction_def Let_def suspend_def trace_def
        handleLocalMediaStreamError_def)
  have "run (Click_start # Settle ?t (Rejected e) # es) init = run es ?f"
    by simp
  also have "\<dots> = ?f" using f by (rule frozen_run)
  finally have 4: "run (Click_start # Settle ?t (Rejected e) # es) init = ?f" .
  from 1 2 3 4 f(1,2) show ?thesis by blast
qed

subsection \<open>The hangup button\<close>

lemma pending_fold_addTrack [simp]: "pending (fold (addTrack a) ts s) = pending s"
  by (induction ts arbitrary: s) (simp_all add: addTrack_def)

lemma length_heap_fold_addTrack [simp]:
  "length (heap (fold (addTrack a) ts s)) = length (heap s)"
  by (induction ts arbitrary: s) (simp_all add: addTrack_def)

lemma senders_fold_addTrack:
  "a < length (heap s) \<Longrightarrow>
   senders (heap (fold (addTrack a) ts s) ! a) = senders (heap s ! a) @ ts"
  by (induction ts arbitrary: s) (simp_all add: addTrack_def)

lemma callAction_offer:
  assumes "localStream s = Some m"
  shows "\<exists>s'. callAction now Constructed Constructed s = Normal s'
           \<and> length (heap s') = length (heap s) + 2
           \<and> senders (heap s' ! length (heap s)) = getTracks m
           \<and> (CreateOffer (length (heap s)), K_callAction) \<in> set (pending s')"
  using assms
  apply (simp add: callAction_def Let_def new_RTCPeerConnection_def split_def trace_def)
  apply (simp add: suspend_def senders_fold_addTrack nth_append fresh_peer_connection_def)
  done

text \<open>
  C10. When \<^verbatim>\<open>hangupAction\<close> has completed, both peer-connection variables are
  \<^verbatim>\<open>null\<close>, the hangup button is disabled, the call button is enabled and
  \<^verbatim>\<open>localStream\<close> is what it was. If a stream had been acquired, a click on call is
  dispatched and \<^verbatim>\<open>callAction\<close>, given its two peer connections by the platform,
  completes: it creates two new peer connections, adds the tracks of that same stream to
  the new local one and requests an offer from it. No \<^verbatim>\<open>startAction\<close> is needed in
  between.
\<close>

theorem hangup_resets_for_next_call:
  assumes "hangupAction s = Normal s'"
  shows "localPeerConnection s' = Null \<and> remotePeerConnection s' = Null
     \<and> hangupButton_disabled s' \<and> \<not> callButton_disabled s'
     \<and> localStream s' = localStream s
     \<and> (\<forall>stream. localStream s = Some stream \<longrightarrow>
          (\<exists>s''. callAction now Constructed Constructed s' = Normal s''
             \<and> step (Click_call now Constructed Constructed) s' = s''
             \<and> localStream s'' = Some stream
             \<and> localPeerConnection s'' = Obj (length (heap s'))
             \<and> remotePeerConnection s'' = Obj (Suc (length (heap s')))
             \<and> senders (heap s'' ! length (heap s')) = getTracks stream
             \<and> (CreateOffer (length (heap s')), K_callAction) \<in> set (pending s'')))"
proof -
  from assms obtain l r where lr: "localPeerConnection s = Obj l" "remotePeerConnection s = Obj r"
    using hangupAction_Normal by blast
  from hangupAction_live [OF lr] assms have
    c: "controls s' = controls (s\<lparr>localPeerConnection := Null, remotePeerConnection := Null,
                 hangupButton_disabled := True, callButton_disabled := False\<rparr>)" by auto
  then have 1: "localPeerConnection s' = Null" "remotePeerConnection s' = Null"
    "hangupButton_disabled s'" "\<not> callButton_disabled s'" "localStream s' = localStream s"
    by (simp_all add: controls_def)
  have 2: "\<exists>s''. callAction now Constructed Constructed s' = Normal s''
             \<and> step (Click_call now Constructed Constructed) s' = s''
             \<and> localStream s'' = Some stream
             \<and> localPeerConnection s'' = Obj (length (heap s'))
             \<and> remotePeerConnection s'' = Obj (Suc (length (heap s')))
             \<and> senders (heap s'' ! length (heap s')) = getTracks stream
             \<and> (CreateOffer (length (heap s')), K_callAction) \<in> set (pending s'')"
    if m: "localStream s = Some stream" for stream
  proof -
    from m 1 have m': "localStream s' = Some stream" by simp
    from callAction_started [OF m', of now] obtain t where
      t: "callAction now Constructed Constructed s' = Normal t" and
      ct: "controls t = controls (s'\<lparr>callButton_disabled := True, hangupButton_disabled := False,
                 localPeerConnection := Obj (length (heap s')),
                 remotePeerConnection := Obj (Suc (length (heap s')))\<rparr>)" by blast
    from callAction_offer [OF m', of now] t have
      o: "senders (heap t ! length (heap s')) = getTracks stream"
         "(CreateOffer (length (heap s')), K_callAction) \<in> set (pending t)" by auto
    from ct m' have "localStream t = Some stream"
      "localPeerConnection t = Obj (length (heap s'))"
      "remotePeerConnection t = Obj (Suc (length (heap s')))"
      by (simp_all add: controls_def)
    with t o 1 show ?thesis by simp
  qed
  from 1 2 show ?thesis by blast
qed

text \<open>The sample session, hung up and called again.\<close>

theorem hangup_resets_for_next_call_witness:
  "hangupAction calling = Normal (step Click_hangup calling)
   \<and> localStream calling = Some camera_stream
   \<and> localPeerConnection (step Click_hangup calling) = Null
   \<and> remotePeerConnection (step Click_hangup calling) = Null
   \<and> hangupButton_disabled (step Click_hangup calling)
   \<and> \<not> callButton_disabled (step Click_hangup calling)
   \<and> localPeerConnection (step (Click_call 7 Constructed Constructed) (step Click_hangup calling)) = Obj 2
   \<and> remotePeerConnection (step (Click_call 7 Constructed Constructed) (step Click_hangup calling)) = Obj 3
   \<and> senders (heap (step (Click_call 7 Constructed Constructed) (step Click_hangup calling)) ! 2) = getTracks camera_stream"
proof -
  have h: "hangupAction calling = Normal (step Click_hangup calling)"
    by (simp add: calling_def script_defs)
  have m: "localStream calling = Some camera_stream"
    by (simp add: calling_def script_defs)
  have n: "length (heap (step Click_hangup calling)) = 2"
    by (simp add: calling_def script_defs)
  note after = hangup_resets_for_next_call [OF h, of 7]
  from after have 1: "localPeerConnection (step Click_hangup calling) = Null"
    "remotePeerConnection (step Click_hangup calling) = Null"
    "hangupButton_disabled (step Click_hangup calling)"
    "\<not> callButton_disabled (step Click_hangup calling)"
    by blast+
  from after m obtain s'' where
    2: "step (Click_call 7 Constructed Constructed) (step Click_hangup calling) = s''"
       "localPeerConnection s'' = Obj (length (heap (step Click_hangup calling)))"
       "remotePeerConnection s'' = Obj (Suc (length (heap (step Click_hangup calling))))"
       "senders (heap s'' ! length (heap (step Click_hangup calling))) = getTracks camera_stream"
    by blast
  from 2 n have 3:
    "localPeerConnection (step (Click_call 7 Constructed Constructed) (step Click_hangup calling)) = Obj 2"
    "remotePeerConnection (step (Click_call 7 Constructed Constructed) (step Click_hangup calling)) = Obj 3"
    "senders (heap (step (Click_call 7 Constructed Constructed) (step Click_hangup calling)) ! 2) = getTracks camera_stream"
    by (simp_all add: numeral_3_eq_3)
  from h m 1 3 show ?thesis by blast
qed

lemma hangupAction_ended:
  "localPeerConnection s = Null \<Longrightarrow> hangupAction s = Throws (cannot_read Null ''close'') s"
  by (simp add: hangupAction_def)

text \<open>
  In the sample session the first \<^verbatim>\<open>hangupAction\<close> completes and the second one, called
  on the state the first has left, throws a \<^verbatim>\<open>TypeError\<close>: line 264 reads
  \<^verbatim>\<open>close\<close> of \<^verbatim>\<open>null\<close>.
\<close>

theorem second_hangup_counterexample:
  "hangupAction calling = Normal (step Click_hangup calling)
   \<and> hangupAction (step Click_hangup calling)
       = Throws (cannot_read Null ''close'') (step Click_hangup calling)
   \<and> err_name (cannot_read Null ''close'') = ''TypeError''"
  by (simp add: calling_def script_defs)

text \<open>
  C3, as the script has it. After a \<^verbatim>\<open>hangupAction\<close> that completed, the hangup button
  is disabled, so a second hangup through the button is not dispatched: it changes nothing
  and raises nothing. A second call of \<^verbatim>\<open>hangupAction\<close> itself throws a
  \<^verbatim>\<open>TypeError\<close> before it changes anything, so the state is still the one the first
  call has left, and the error is reported as uncaught.
\<close>

theorem second_hangup:
  assumes "hangupAction s = Normal s'"
  shows "step Click_hangup s' = s'
     \<and> hangupAction s' = Throws (cannot_read Null ''close'') s'
     \<and> report (hangupAction s') = s'\<lparr>uncaught := uncaught s' @ [cannot_read Null ''close'']\<rparr>"
proof -
  from assms obtain l r where lr: "localPeerConnection s = Obj l" "remotePeerConnection s = Obj r"
    using hangupAction_Normal by blast
  from hangupAction_live [OF lr] assms have
    "controls s' = controls (s\<lparr>localPeerConnection := Null, remotePeerConnection := Null,
                 hangupButton_disabled := True, callButton_disabled := False\<rparr>)" by auto
  then have 1: "localPeerConnection s' = Null" "hangupButton_disabled s'"
    by (simp_all add: controls_def)
  from 1(1) have 2: "hangupAction s' = Throws (cannot_read Null ''close'') s'"
    by (rule hangupAction_ended)
  from 1 2 show ?thesis by simp
qed

text \<open>The sample session, with a second hangup after the first.\<close>

theorem second_hangup_witness:
  "hangupAction calling = Normal (step Click_hangup calling)
   \<and> step Click_hangup (step Click_hangup calling) = step Click_hangup calling
   \<and> hangupAction (step Click_hangup calling)
       = Throws (cannot_read Null ''close'') (step Click_hangup calling)"
proof -
  have h: "hangupAction calling = Normal (step Click_hangup calling)"
    by (simp add: calling_def script_defs)
  from second_hangup [OF h] h show ?thesis by blast
qed

subsection \<open>The call button\<close>

text \<open>
  On the page as loaded, \<^verbatim>\<open>callAction\<close> ends with a \<^verbatim>\<open>TypeError\<close> (line 221 reads
  \<^verbatim>\<open>getVideoTracks\<close> of \<^verbatim>\<open>undefined\<close>) after lines 214 to 218 have enabled the
  hangup button, logged and set \<^verbatim>\<open>startTime\<close>: the state is not the one it started in.
\<close>

theorem connect_before_start_counterexample:
  "callAction 0 Constructed Constructed init
     = Throws (cannot_read Undefined ''getVideoTracks'')
         (init\<lparr>hangupButton_disabled := False, startTime := Some 0,
               console := [''Starting call'']\<rparr>)
   \<and> err_name (cannot_read Undefined ''getVideoTracks'') = ''TypeError''
   \<and> init\<lparr>hangupButton_disabled := False, startTime := Some 0,
            console := [''Starting call'']\<rparr> \<noteq> init"
proof -
  have "init\<lparr>hangupButton_disabled := False, startTime := Some 0,
            console := [''Starting call'']\<rparr> \<noteq> init"
  proof
    assume "init\<lparr>hangupButton_disabled := False, startTime := Some 0,
            console := [''Starting call'']\<rparr> = init"
    then have "hangupButton_disabled (init\<lparr>hangupButton_disabled := False, startTime := Some 0,
            console := [''Starting call'']\<rparr>) = hangupButton_disabled init"
      by (rule arg_cong)
    then show False by (simp add: init_def)
  qed
  moreover have "callAction 0 Constructed Constructed init
     = Throws (cannot_read Undefined ''getVideoTracks'')
         (init\<lparr>hangupButton_disabled := False, startTime := Some 0,
               console := [''Starting call'']\<rparr>)"
    by (simp add: script_defs)
  ultimately show ?thesis by (simp add: cannot_read_def)
qed

text \<open>
  C4, as the script has it. In every state the page reaches in which no local stream has
  been acquired, the call button is disabled: a click on it is not dispatched, changes
  nothing and raises nothing. A call of \<^verbatim>\<open>callAction\<close> itself without a local stream
  ends with a \<^verbatim>\<open>TypeError\<close>; it creates no peer connection, makes no platform call
  and leaves nothing pending.
\<close>

theorem connect_before_start:
  "(localStream (run es init) = None \<longrightarrow>
      step (Click_call now constructLocal constructRemote) (run es init) = run es init)
   \<and> (localStream s = None \<longrightarrow>
      (\<exists>s'. callAction now constructLocal constructRemote s
             = Throws (cannot_read Undefined ''getVideoTracks'') s'
         \<and> localPeerConnection s' = localPeerConnection s
         \<and> remotePeerConnection s' = remotePeerConnection s
         \<and> localStream s' = None
         \<and> heap s' = heap s \<and> calls s' = calls s \<and> pending s' = pending s))"
proof -
  have "gated (run es init)" using gated_init by (rule gated_run)
  then have "localStream (run es init) = None \<longrightarrow> callButton_disabled (run es init)"
    by (auto simp: gated_def)
  then have 1: "localStream (run es init) = None \<longrightarrow>
      step (Click_call now constructLocal constructRemote) (run es init) = run es init" by simp
  have 2: "localStream s = None \<longrightarrow>
      (\<exists>s'. callAction now constructLocal constructRemote s
             = Throws (cannot_read Undefined ''getVideoTracks'') s'
         \<and> localPeerConnection s' = localPeerConnection s
         \<and> remotePeerConnection s' = remotePeerConnection s
         \<and> localStream s' = None
         \<and> heap s' = heap s \<and> calls s' = calls s \<and> pending s' = pending s)"
    by (simp add: callAction_def Let_def trace_def)
  from 1 2 show ?thesis by blast
qed

text \<open>The page as loaded.\<close>

theorem connect_before_start_witness:
  "localStream (run [] init) = None
   \<and> step (Click_call 0 Constructed Constructed) (run [] init) = run [] init
   \<and> localStream init = None
   \<and> (\<exists>s'. callAction 0 Constructed Constructed init
         = Throws (cannot_read Undefined ''getVideoTracks'') s'
         \<and> localPeerConnection s' = Undefined \<and> remotePeerConnection s' = Undefined
         \<and> heap s' = [] \<and> calls s' = [] \<and> pending s' = [])"
proof -
  have n: "localStream (run [] init) = None" "localStream init = None"
    by (simp_all add: init_def)
  have i: "localPeerConnection init = Undefined" "remotePeerConnection init = Undefined"
    "heap init = []" "calls init = []" "pending init = []"
    by (simp_all add: init_def)
  from connect_before_start [of "[]" 0 Constructed Constructed init] n have
    "step (Click_call 0 Constructed Constructed) (run [] init) = run [] init"
    "\<exists>s'. callAction 0 Constructed Constructed init
         = Throws (cannot_read Undefined ''getVideoTracks'') s'
         \<and> localPeerConnection s' = localPeerConnection init
         \<and> remotePeerConnection s' = remotePeerConnection init
         \<and> localStream s' = None
         \<and> heap s' = heap init \<and> calls s' = calls init \<and> pending s' = pending init"
    by blast+
  then obtain s' where s': "callAction 0 Constructed Constructed init
         = Throws (cannot_read Undefined ''getVideoTracks'') s'"
      "localPeerConnection s' = localPeerConnection init"
      "remotePeerConnection s' = remotePeerConnection init"
      "heap s' = heap init" "calls s' = calls init" "pending s' = pending init"
    and c: "step (Click_call 0 Constructed Constructed) (run [] init) = run [] init"
    by blast
  from s' i have "\<exists>s'. callAction 0 Constructed Constructed init
         = Throws (cannot_read Undefined ''getVideoTracks'') s'
         \<and> localPeerConnection s' = Undefined \<and> remotePeerConnection s' = Undefined
         \<and> heap s' = [] \<and> calls s' = [] \<and> pending s' = []"
    by simp
  with n c show ?thesis by blast
qed

subsection \<open>The calls of the relay\<close>

lemma calls_trace [simp]: "calls (trace text s) = calls s"
  by (simp add: trace_def)

lemma calls_handleConnection:
  "calls (handleConnection E (Some c) s)
     = calls s @ (case getOtherPeer (Obj E) s of Obj other \<Rightarrow> [AddIceCandidate other c] | _ \<Rightarrow> [])"
  by (simp add: handleConnection_def Let_def suspend_def handleConnection_end_def
      handleConnectionFailure_def split: ref.splits)

lemma calling_refs:
  "localPeerConnection calling = Obj 0" "remotePeerConnection calling = Obj 1"
  by (simp_all add: calling_def script_defs)

subsection \<open>Hangup and what settles after it\<close>

lemma calls_effect [simp]: "calls (effect c out s) = calls s"
  by (cases "(c, out, s)" rule: effect.cases) simp_all

lemma pending_effect [simp]: "pending (effect c out s) = pending s"
  by (cases "(c, out, s)" rule: effect.cases) simp_all

lemma refs_effect [simp]:
  "localPeerConnection (effect c out s) = localPeerConnection s"
  "remotePeerConnection (effect c out s) = remotePeerConnection s"
  by (cases "(c, out, s)" rule: effect.cases; simp)+

lemmas handshake_defs = createdOffer_def createdOffer_try1_def createdOffer_try2_def
  createdOffer_try3_def createdAnswer_def createdAnswer_try1_def createdAnswer_try2_def
  setSessionDescriptionError_def setLocalDescriptionSuccess_def setRemoteDescriptionSuccess_def
  setDescriptionSuccess_def

lemmas relay_defs = handleConnection_def handleConnection_end_def handleConnectionSuccess_def
  handleConnectionFailure_def

lemma resume_ended:
  assumes "localPeerConnection s = Null" and "remotePeerConnection s = Null"
  shows "calls (resume k out s) = calls s \<and> pending (resume k out s) = pending s"
  using assms
  by (cases k; cases out)
     (simp_all add: handshake_defs relay_defs trace_def Let_def gotLocalMediaStream_def
        handleLocalMediaStreamError_def)

lemma resume_ended_logs:
  assumes "localPeerConnection s = Null" and "remotePeerConnection s = Null"
    and "k \<noteq> K_startAction"
  shows "resume k out s = s\<lparr>console := console (resume k out s)\<rparr>"
  using assms
  by (cases k; cases out)
     (simp_all add: handshake_defs relay_defs trace_def Let_def)




subsection \<open>Failures in the handshake\<close>

text \<open>
  C6. With two peer connections in the variables, a rejected
  \<^verbatim>\<open>remotePeerConnection.setRemoteDescription\<close> (stage 2) is caught and logged, and
  \<^verbatim>\<open>createAnswer\<close> (stage 3) is called on the remote peer connection and awaited; nothing
  is thrown uncaught. The same holds for the steps before and after: a rejected
  \<^verbatim>\<open>localPeerConnection.setLocalDescription\<close> is logged and the offer is still given to
  the remote side, and a rejected \<^verbatim>\<open>remotePeerConnection.setLocalDescription\<close> is logged
  and the answer is still given to the local side. A rejected \<^verbatim>\<open>createAnswer\<close> and a
  rejected last step are logged too; no step depends on them, and none is made.
\<close>

theorem handshake_failures_are_logged_and_passed:
  assumes "localPeerConnection s = Obj l" and "remotePeerConnection s = Obj r"
  shows
    "console (settle (SetRemoteDescription r offer, K_createdOffer2 offer) (Rejected e) s)
       = console s @ [''Failed to create session description: '' @ toString e @ ''.'',
                      ''remotePeerConnection createAnswer start.'']
     \<and> calls (settle (SetRemoteDescription r offer, K_createdOffer2 offer) (Rejected e) s)
       = calls s @ [CreateAnswer r]
     \<and> (CreateAnswer r, K_createdOffer3)
       \<in> set (pending (settle (SetRemoteDescription r offer, K_createdOffer2 offer) (Rejected e) s))
     \<and> uncaught (settle (SetRemoteDescription r offer, K_createdOffer2 offer) (Rejected e) s)
       = uncaught s
     \<and> console (settle (SetLocalDescription l offer, K_createdOffer1 offer) (Rejected e) s)
       = console s @ [''Failed to create session description: '' @ toString e @ ''.'',
                      ''remotePeerConnection setRemoteDescription start'']
     \<and> calls (settle (SetLocalDescription l offer, K_createdOffer1 offer) (Rejected e) s)
       = calls s @ [SetRemoteDescription r offer]
     \<and> (SetRemoteDescription r offer, K_createdOffer2 offer)
       \<in> set (pending (settle (SetLocalDescription l offer, K_createdOffer1 offer) (Rejected e) s))
     \<and> uncaught (settle (SetLocalDescription l offer, K_createdOffer1 offer) (Rejected e) s)
       = uncaught s
     \<and> console (settle (SetLocalDescription r answer, K_createdAnswer1 answer) (Rejected e) s)
       = console s @ [''Failed to create session description: '' @ toString e @ ''.'',
                      ''localPeerConnection setRemoteDescription start.'']
     \<and> calls (settle (SetLocalDescription r answer, K_createdAnswer1 answer) (Rejected e) s)
       = calls s @ [SetRemoteDescription l answer]
     \<and> (SetRemoteDescription l answer, K_createdAnswer2 answer)
       \<in> set (pending (settle (SetLocalDescription r answer, K_createdAnswer1 answer) (Rejected e) s))
     \<and> uncaught (settle (SetLocalDescription r answer, K_createdAnswer1 answer) (Rejected e) s)
       = uncaught s
     \<and> console (settle (CreateAnswer r, K_createdOffer3) (Rejected e) s)
       = console s @ [''Failed to create session description: '' @ toString e @ ''.'']
     \<and> calls (settle (CreateAnswer r, K_createdOffer3) (Rejected e) s) = calls s
     \<and> uncaught (settle (CreateAnswer r, K_createdOffer3) (Rejected e) s) = uncaught s
     \<and> console (settle (SetRemoteDescription l answer, K_createdAnswer2 answer) (Rejected e) s)
       = console s @ [''Failed to create session description: '' @ toString e @ ''.'']
     \<and> calls (settle (SetRemoteDescription l answer, K_createdAnswer2 answer) (Rejected e) s)
       = calls s
     \<and> uncaught (settle (SetRemoteDescription l answer, K_createdAnswer2 answer) (Rejected e) s)
       = uncaught s"
proof -
  note defs = settle_def createdOffer_try2_def createdOffer_try3_def createdAnswer_try2_def
    setSessionDescriptionError_def trace_def suspend_def Let_def
  from assms show ?thesis
    by (simp add: defs createdAnswer_try1_def trim_def is_space_def)
qed

lemmas sample_defs = calling_def offered_def rejection_def script_defs handshake_defs relay_defs
  toString_def getPeerName_def getOtherPeer_def

text \<open>The sample session, with stage 2 pending and then rejected.\<close>

theorem handshake_failures_are_logged_and_passed_witness:
  "localPeerConnection offered = Obj 0 \<and> remotePeerConnection offered = Obj 1
   \<and> (SetRemoteDescription 1 offer_O1, K_createdOffer2 offer_O1) \<in> set (pending offered)
   \<and> console (settle (SetRemoteDescription 1 offer_O1, K_createdOffer2 offer_O1)
                 (Rejected rejection) offered)
       = console offered @ [''Failed to create session description: OperationError: failed.'',
                            ''remotePeerConnection createAnswer start.'']
   \<and> calls (settle (SetRemoteDescription 1 offer_O1, K_createdOffer2 offer_O1)
                 (Rejected rejection) offered)
       = calls offered @ [CreateAnswer 1]"
proof -
  have r: "localPeerConnection offered = Obj 0" "remotePeerConnection offered = Obj 1"
    by (simp_all add: sample_defs)
  have p: "(SetRemoteDescription 1 offer_O1, K_createdOffer2 offer_O1) \<in> set (pending offered)"
    by (simp add: sample_defs)
  have e: "toString rejection = ''OperationError: failed''"
    by (simp add: toString_def rejection_def)
  from handshake_failures_are_logged_and_passed [OF r, of offer_O1 rejection answer_A1]
  have "console (settle (SetRemoteDescription 1 offer_O1, K_createdOffer2 offer_O1)
                 (Rejected rejection) offered)
       = console offered @ [''Failed to create session description: '' @ toString rejection @ ''.'',
                            ''remotePeerConnection createAnswer start.'']"
    "calls (settle (SetRemoteDescription 1 offer_O1, K_createdOffer2 offer_O1)
                 (Rejected rejection) offered)
       = calls offered @ [CreateAnswer 1]"
    by blast+
  with r p e show ?thesis by simp
qed

subsection \<open>The handshake\<close>

lemma descs_nth:
  "a < length h \<Longrightarrow> descs h ! a = (localDescription (h ! a), remoteDescription (h ! a))"
  by (simp add: descs_def)

lemma length_descs [simp]: "length (descs h) = length h"
  by (simp add: descs_def)

lemma descs_state_change [simp]:
  "descs (h[a := (h ! a)\<lparr>iceConnectionState := st\<rparr>]) = descs h"
  by (cases "a < length h") (auto simp: descs_def list_eq_iff_nth_eq nth_list_update)

lemma descs_candidates [simp]:
  "descs (h[a := (h ! a)\<lparr>remoteCandidates := cs\<rparr>]) = descs h"
  by (cases "a < length h") (auto simp: descs_def list_eq_iff_nth_eq nth_list_update)

lemma heap_trace [simp]: "heap (trace text s) = heap s"
  by (simp add: trace_def)

lemma heap_suspend [simp]: "heap (suspend t s) = heap s"
  by (simp add: suspend_def)

lemma heap_relay_log [simp]:
  "heap (handleConnection_end b c s) = heap s"
  "heap (handleConnectionSuccess pc s) = heap s"
  "heap (handleConnectionFailure pc err s) = heap s"
  by (simp_all add: relay_defs)

lemma heap_handleConnection [simp]: "heap (handleConnection a c s) = heap s"
  by (simp add: handleConnection_def Let_def split: option.splits ref.splits)

lemma heap_start_log [simp]:
  "heap (gotLocalMediaStream m s) = heap s"
  "heap (handleLocalMediaStreamError err s) = heap s"
  by (simp_all add: gotLocalMediaStream_def handleLocalMediaStreamError_def Let_def)

lemma bystander_descriptions:
  assumes "bystander e"
  shows "descs (heap (step e s)) = descs (heap s)"
  using assms
proof (cases e rule: bystander.cases)
  case 1
  then show ?thesis
    by (simp add: startAction_def Let_def)
next
  case (3 a st)
  then show ?thesis
    by (simp add: handleConnectionChange_def Let_def)
next
  case (4 a streams)
  then show ?thesis
    by (simp add: gotRemoteMediaStream_def Let_def)
next
  case (6 a c b c' out)
  then show ?thesis
    by (cases out) (simp_all add: settle_def)
next
  case (5 out)
  then show ?thesis
    by (cases out) (simp_all add: settle_def)
qed simp_all

lemma refs_of_controls:
  "controls s' = controls s \<Longrightarrow>
   localPeerConnection s' = localPeerConnection s \<and> remotePeerConnection s' = remotePeerConnection s"
  by (simp add: controls_def)

lemma bystander_refs:
  assumes "bystander e"
  shows "localPeerConnection (step e s) = localPeerConnection s
     \<and> remotePeerConnection (step e s) = remotePeerConnection s"
  using assms
proof (cases e rule: bystander.cases)
  case 1
  from refs_of_controls [OF controls_startAction, of s] 1 show ?thesis by simp
next
  case (2 a c)
  from refs_of_controls [OF controls_handleConnection, of a c s] 2 show ?thesis by simp
next
  case (3 a st)
  then show ?thesis
    by (simp add: handleConnectionChange_def Let_def trace_def)
next
  case (4 a streams)
  from refs_of_controls [OF controls_gotRemoteMediaStream, of streams s] 4  show ?thesis by simp
next
  case (5 out)
  then show ?thesis
    by (cases out)
       (simp_all add: settle_def gotLocalMediaStream_def handleLocalMediaStreamError_def Let_def
          trace_def)
next
  case (6 a c b c' out)
  have "controls (settle (AddIceCandidate a c, K_handleConnection b c') out s) = controls s"
    by (simp add: settle_def controls_resume)
  from refs_of_controls [OF this] 6 show ?thesis by simp
qed simp_all

lemma pending_relay_log [simp]:
  "pending (handleConnection_end b c s) = pending s"
  "pending (handleConnectionSuccess pc s) = pending s"
  "pending (handleConnectionFailure pc err s) = pending s"
  by (simp_all add: relay_defs trace_def)

lemma pending_start_log [simp]:
  "pending (gotLocalMediaStream m s) = pending s"
  "pending (handleLocalMediaStreamError err s) = pending s"
  by (simp_all add: gotLocalMediaStream_def handleLocalMediaStreamError_def Let_def trace_def)

lemma pending_handleConnection:
  "t \<in> set (pending s) \<Longrightarrow> t \<in> set (pending (handleConnection a c s))"
  by (simp add: handleConnection_def Let_def suspend_def split: option.splits ref.splits)

lemma bystander_pending:
  assumes "bystander e" and "handshake_cont (snd t)" and "t \<in> set (pending s)"
  shows "t \<in> set (pending (step e s))"
  using assms
proof (cases e rule: bystander.cases)
  case 1
  with assms(3) show ?thesis
    by (simp add: startAction_def Let_def suspend_def trace_def)
next
  case (2 a c)
  with assms(3) show ?thesis by (simp add: pending_handleConnection)
next
  case (3 a st)
  with assms(3) show ?thesis
    by (simp add: handleConnectionChange_def Let_def trace_def)
next
  case (4 a streams)
  with assms(3) show ?thesis
    by (simp add: gotRemoteMediaStream_def Let_def trace_def)
next
  case (5 out)
  from assms(2) have "t \<noteq> (GetUserMedia, K_startAction)" by auto
  with assms(3) 5 show ?thesis
    by (cases out) (simp_all add: settle_def)
next
  case (6 a c b c' out)
  from assms(2) have "t \<noteq> (AddIceCandidate a c, K_handleConnection b c')" by auto
  with assms(3) 6 show ?thesis
    by (cases out) (simp_all add: settle_def)
qed simp_all

lemma bystanders_run:
  assumes "list_all bystander es"
  shows "descs (heap (run es s)) = descs (heap s)
     \<and> localPeerConnection (run es s) = localPeerConnection s
     \<and> remotePeerConnection (run es s) = remotePeerConnection s
     \<and> (handshake_cont (snd t) \<longrightarrow> t \<in> set (pending s) \<longrightarrow> t \<in> set (pending (run es s)))"
  using assms
proof (induction es arbitrary: s)
  case Nil
  show ?case by simp
next
  case (Cons e es)
  then have b: "bystander e" and bs: "list_all bystander es" by simp_all
  note ih = Cons.IH [OF bs, of "step e s"]
  from bystander_descriptions [OF b, of s] bystander_refs [OF b, of s]
    bystander_pending [OF b, of t s] ih
  show ?case by simp
qed

lemma run_append: "run (es @ es') s = run es' (run es s)"
  by (induction es arbitrary: s) simp_all

lemma bystanders_live:
  assumes "list_all bystander es" and "live l r s"
  shows "live l r (run es s) \<and> descs (heap (run es s)) = descs (heap s)"
proof -
  from bystanders_run [OF assms(1), of s] have
    d: "descs (heap (run es s)) = descs (heap s)" and
    r: "localPeerConnection (run es s) = localPeerConnection s"
       "remotePeerConnection (run es s) = remotePeerConnection s"
    by blast+
  from d have "length (descs (heap (run es s))) = length (descs (heap s))" by simp
  then have "length (heap (run es s)) = length (heap s)" by simp
  with assms(2) r d show ?thesis by (simp add: live_def)
qed

lemma bystanders_stage:
  assumes "list_all bystander es" and "handshake_cont (snd t)" and "at_stage l r D t s"
  shows "at_stage l r D t (run es s)"
proof -
  from assms(3) have l: "live l r s" and d: "descs (heap s) = D" and p: "t \<in> set (pending s)"
    by (simp_all add: at_stage_def)
  from bystanders_run [OF assms(1), of s t] assms(2) p have "t \<in> set (pending (run es s))"
    by blast
  with bystanders_live [OF assms(1) l] d show ?thesis
    by (simp add: at_stage_def)
qed

lemma descs_set_local:
  "a < length h \<Longrightarrow>
   descs (h[a := (h ! a)\<lparr>localDescription := Some d\<rparr>]) = (descs h)[a := (Some d, snd (descs h ! a))]"
  by (auto simp: descs_def list_eq_iff_nth_eq nth_list_update)

lemma descs_set_remote:
  "a < length h \<Longrightarrow>
   descs (h[a := (h ! a)\<lparr>remoteDescription := Some d\<rparr>]) = (descs h)[a := (fst (descs h ! a), Some d)]"
  by (auto simp: descs_def list_eq_iff_nth_eq nth_list_update)

lemmas stage_defs = at_stage_def live_def settle_def handshake_defs trace_def suspend_def Let_def

lemma offer_created:
  assumes "at_stage l r D (CreateOffer l, K_callAction) s"
  shows "at_stage l r D (SetLocalDescription l offer, K_createdOffer1 offer)
           (step (Settle (CreateOffer l, K_callAction) (FulfilledDescription offer)) s)"
  using assms by (simp add: stage_defs)

lemma offer_set_local:
  assumes "at_stage l r D (SetLocalDescription l offer, K_createdOffer1 offer) s"
  shows "at_stage l r (D[l := (Some offer, snd (D ! l))])
           (SetRemoteDescription r offer, K_createdOffer2 offer)
           (step (Settle (SetLocalDescription l offer, K_createdOffer1 offer) Fulfilled) s)"
  using assms by (auto simp: stage_defs getPeerName_def descs_set_local)

lemma offer_set_remote:
  assumes "at_stage l r D (SetRemoteDescription r offer, K_createdOffer2 offer) s"
  shows "at_stage l r (D[r := (fst (D ! r), Some offer)])
           (CreateAnswer r, K_createdOffer3)
           (step (Settle (SetRemoteDescription r offer, K_createdOffer2 offer) Fulfilled) s)"
  using assms by (auto simp: stage_defs getPeerName_def descs_set_remote)

lemma answer_created:
  assumes "at_stage l r D (CreateAnswer r, K_createdOffer3) s"
  shows "at_stage l r D (SetLocalDescription r answer, K_createdAnswer1 answer)
           (step (Settle (CreateAnswer r, K_createdOffer3) (FulfilledDescription answer)) s)"
  using assms by (simp add: stage_defs)

lemma answer_set_local:
  assumes "at_stage l r D (SetLocalDescription r answer, K_createdAnswer1 answer) s"
  shows "at_stage l r (D[r := (Some answer, snd (D ! r))])
           (SetRemoteDescription l answer, K_createdAnswer2 answer)
           (step (Settle (SetLocalDescription r answer, K_createdAnswer1 answer) Fulfilled) s)"
  using assms by (auto simp: stage_defs getPeerName_def descs_set_local)

lemma answer_set_remote:
  assumes "at_stage l r D (SetRemoteDescription l answer, K_createdAnswer2 answer) s"
  shows "live l r (step (Settle (SetRemoteDescription l answer, K_createdAnswer2 answer) Fulfilled) s)
     \<and> descs (heap (step (Settle (SetRemoteDescription l answer, K_createdAnswer2 answer) Fulfilled) s))
         = D[l := (fst (D ! l), Some answer)]"
  using assms by (auto simp: stage_defs getPeerName_def descs_set_remote)

text \<open>
  C1. In a session under way between the local peer connection \<open>l\<close> and the remote one
  \<open>r\<close>, with \<^verbatim>\<open>createOffer\<close> pending: when \<^verbatim>\<open>createOffer\<close> is fulfilled with an offer and
  the four steps that follow all succeed (\<^verbatim>\<open>l.setLocalDescription(offer)\<close>,
  \<^verbatim>\<open>r.setRemoteDescription(offer)\<close>, \<^verbatim>\<open>r.createAnswer()\<close> with
  \<^verbatim>\<open>r.setLocalDescription(answer)\<close>, and \<^verbatim>\<open>l.setRemoteDescription(answer)\<close>), whatever
  events beside the handshake come in between and afterwards, the local description of
  \<open>l\<close> and the remote description of \<open>r\<close> are both the offer, and the local description
  of \<open>r\<close> and the remote description of \<open>l\<close> are both the answer.
\<close>

theorem handshake_descriptions_agree:
  fixes offer answer :: description
  assumes "live l r s" and "(CreateOffer l, K_callAction) \<in> set (pending s)"
    and "list_all bystander es1" and "list_all bystander es2" and "list_all bystander es3"
    and "list_all bystander es4" and "list_all bystander es5" and "list_all bystander es6"
  defines "s' \<equiv>
    run (Settle (CreateOffer l, K_callAction) (FulfilledDescription offer) # es1
         @ Settle (SetLocalDescription l offer, K_createdOffer1 offer) Fulfilled # es2
         @ Settle (SetRemoteDescription r offer, K_createdOffer2 offer) Fulfilled # es3
         @ Settle (CreateAnswer r, K_createdOffer3) (FulfilledDescription answer) # es4
         @ Settle (SetLocalDescription r answer, K_createdAnswer1 answer) Fulfilled # es5
         @ Settle (SetRemoteDescription l answer, K_createdAnswer2 answer) Fulfilled # es6) s"
  shows "localDescription (heap s' ! l) = Some offer
     \<and> remoteDescription (heap s' ! r) = Some offer
     \<and> localDescription (heap s' ! r) = Some answer
     \<and> remoteDescription (heap s' ! l) = Some answer
     \<and> localDescription (heap s' ! l) = remoteDescription (heap s' ! r)
     \<and> localDescription (heap s' ! r) = remoteDescription (heap s' ! l)
     \<and> localPeerConnection s' = Obj l \<and> remotePeerConnection s' = Obj r"
proof -
  let ?D = "descs (heap s)"
  let ?e0 = "Settle (CreateOffer l, K_callAction) (FulfilledDescription offer)"
  let ?e1 = "Settle (SetLocalDescription l offer, K_createdOffer1 offer) Fulfilled"
  let ?e2 = "Settle (SetRemoteDescription r offer, K_createdOffer2 offer) Fulfilled"
  let ?e3 = "Settle (CreateAnswer r, K_createdOffer3) (FulfilledDescription answer)"
  let ?e4 = "Settle (SetLocalDescription r answer, K_createdAnswer1 answer) Fulfilled"
  let ?e5 = "Settle (SetRemoteDescription l answer, K_createdAnswer2 answer) Fulfilled"
  let ?s1 = "run es1 (step ?e0 s)"
  let ?s2 = "run es2 (step ?e1 ?s1)"
  let ?s3 = "run es3 (step ?e2 ?s2)"
  let ?s4 = "run es4 (step ?e3 ?s3)"
  let ?s5 = "run es5 (step ?e4 ?s4)"
  let ?s6 = "run es6 (step ?e5 ?s5)"
  let ?D1 = "?D[l := (Some offer, snd (?D ! l))]"
  let ?D2 = "?D1[r := (fst (?D1 ! r), Some offer)]"
  let ?D3 = "?D2[r := (Some answer, snd (?D2 ! r))]"
  let ?D4 = "?D3[l := (fst (?D3 ! l), Some answer)]"
  have s': "s' = ?s6"
    by (simp add: s'_def run_append)
  from assms(1,2) have "at_stage l r ?D (CreateOffer l, K_callAction) s"
    by (simp add: at_stage_def)
  then have "at_stage l r ?D (SetLocalDescription l offer, K_createdOffer1 offer) (step ?e0 s)"
    by (rule offer_created)
  with assms(3) have "at_stage l r ?D (SetLocalDescription l offer, K_createdOffer1 offer) ?s1"
    by (simp add: bystanders_stage)
  then have "at_stage l r ?D1 (SetRemoteDescription r offer, K_createdOffer2 offer) (step ?e1 ?s1)"
    by (rule offer_set_local)
  with assms(4) have "at_stage l r ?D1 (SetRemoteDescription r offer, K_createdOffer2 offer) ?s2"
    by (simp add: bystanders_stage)
  then have "at_stage l r ?D2 (CreateAnswer r, K_createdOffer3) (step ?e2 ?s2)"
    by (rule offer_set_remote)
  with assms(5) have "at_stage l r ?D2 (CreateAnswer r, K_createdOffer3) ?s3"
    by (simp add: bystanders_stage)
  then have "at_stage l r ?D2 (SetLocalDescription r answer, K_createdAnswer1 answer) (step ?e3 ?s3)"
    by (rule answer_created)
  with assms(6) have "at_stage l r ?D2 (SetLocalDescription r answer, K_createdAnswer1 answer) ?s4"
    by (simp add: bystanders_stage)
  then have "at_stage l r ?D3 (SetRemoteDescription l answer, K_createdAnswer2 answer) (step ?e4 ?s4)"
    by (rule answer_set_local)
  with assms(7) have "at_stage l r ?D3 (SetRemoteDescription l answer, K_createdAnswer2 answer) ?s5"
    by (simp add: bystanders_stage)
  then have "live l r (step ?e5 ?s5) \<and> descs (heap (step ?e5 ?s5)) = ?D4"
    by (rule answer_set_remote)
  with bystanders_live [OF assms(8), of l r "step ?e5 ?s5"]
  have "live l r ?s6" and "descs (heap ?s6) = ?D4"
    by simp_all
  with s' have live: "live l r s'" and d: "descs (heap s') = ?D4"
    by simp_all
  from live have n: "l \<noteq> r" "l < length (heap s')" "r < length (heap s')"
    and refs: "localPeerConnection s' = Obj l" "remotePeerConnection s' = Obj r"
    by (simp_all add: live_def)
  from d have "length (descs (heap s')) = length ?D4" by simp
  with n have len: "l < length ?D" "r < length ?D" by simp_all
  from n(1) len have "?D4 ! l = (Some offer, Some answer)" "?D4 ! r = (Some answer, Some offer)"
    by simp_all
  with d have "descs (heap s') ! l = (Some offer, Some answer)"
    "descs (heap s') ! r = (Some answer, Some offer)"
    by simp_all
  with n(2,3) have "localDescription (heap s' ! l) = Some offer"
    "remoteDescription (heap s' ! l) = Some answer"
    "localDescription (heap s' ! r) = Some answer"
    "remoteDescription (heap s' ! r) = Some offer"
    by (simp_all add: descs_nth)
  with refs show ?thesis by simp
qed

text \<open>
  The specification's scenario: after the sample handshake the local peer connection has
  the answer \<^verbatim>\<open>A1\<close> as its remote description and the remote one has the offer
  \<^verbatim>\<open>O1\<close>.
\<close>

theorem handshake_descriptions_agree_witness:
  "live 0 1 calling
   \<and> (CreateOffer 0, K_callAction) \<in> set (pending calling)
   \<and> list_all bystander [Icecandidate 0 (Some candidate_c1)]
   \<and> list_all bystander
        [Settle (AddIceCandidate 1 candidate_c1, K_handleConnection 0 candidate_c1) Fulfilled]
   \<and> localDescription (heap (run sample_handshake calling) ! 0) = Some offer_O1
   \<and> remoteDescription (heap (run sample_handshake calling) ! 1) = Some offer_O1
   \<and> localDescription (heap (run sample_handshake calling) ! 1) = Some answer_A1
   \<and> remoteDescription (heap (run sample_handshake calling) ! 0) = Some answer_A1
   \<and> remoteCandidates (heap (run sample_handshake calling) ! 1) = [candidate_c1]"
proof -
  have l: "live 0 1 calling"
    by (simp add: live_def sample_defs)
  have p: "(CreateOffer 0, K_callAction) \<in> set (pending calling)"
    by (simp add: sample_defs)
  have b1: "list_all bystander [Icecandidate 0 (Some candidate_c1)]"
    and b3: "list_all bystander
        [Settle (AddIceCandidate 1 candidate_c1, K_handleConnection 0 candidate_c1) Fulfilled]"
    and b0: "list_all bystander []"
    by simp_all
  note h = handshake_descriptions_agree [OF l p b1 b0 b3 b0 b0 b0, of offer_O1 answer_A1]
  have e: "Settle (CreateOffer 0, K_callAction) (FulfilledDescription offer_O1)
      # [Icecandidate 0 (Some candidate_c1)]
      @ Settle (SetLocalDescription 0 offer_O1, K_createdOffer1 offer_O1) Fulfilled # []
      @ Settle (SetRemoteDescription 1 offer_O1, K_createdOffer2 offer_O1) Fulfilled
      # [Settle (AddIceCandidate 1 candidate_c1, K_handleConnection 0 candidate_c1) Fulfilled]
      @ Settle (CreateAnswer 1, K_createdOffer3) (FulfilledDescription answer_A1) # []
      @ Settle (SetLocalDescription 1 answer_A1, K_createdAnswer1 answer_A1) Fulfilled # []
      @ Settle (SetRemoteDescription 0 answer_A1, K_createdAnswer2 answer_A1) Fulfilled # []
      = sample_handshake"
    by (simp add: sample_handshake_def)
  from h have d: "localDescription (heap (run sample_handshake calling) ! 0) = Some offer_O1"
    "remoteDescription (heap (run sample_handshake calling) ! 1) = Some offer_O1"
    "localDescription (heap (run sample_handshake calling) ! 1) = Some answer_A1"
    "remoteDescription (heap (run sample_handshake calling) ! 0) = Some answer_A1"
    unfolding e by blast+
  have c: "remoteCandidates (heap (run sample_handshake calling) ! 1) = [candidate_c1]"
    by (simp add: sample_handshake_def sample_defs)
  from l p b1 b3 d c show ?thesis by blast
qed

subsection \<open>A rejected candidate\<close>

lemma length_heap_effect [simp]: "length (heap (effect c out s)) = length (heap s)"
  by (cases "(c, out, s)" rule: effect.cases) simp_all

lemma heap_log [simp]:
  "heap (setSessionDescriptionError err s) = heap s"
  "heap (setDescriptionSuccess pc f s) = heap s"
  by (simp_all add: setSessionDescriptionError_def setDescriptionSuccess_def Let_def)

lemma heap_createdAnswer_try2 [simp]: "heap (createdAnswer_try2 d s) = heap s"
  by (simp add: Let_def createdAnswer_try2_def split: ref.splits)

lemma heap_createdAnswer_try1 [simp]: "heap (createdAnswer_try1 d s) = heap s"
  by (simp add: Let_def createdAnswer_try1_def split: ref.splits)

lemma heap_createdAnswer [simp]: "heap (createdAnswer d s) = heap s"
  by (simp add: Let_def createdAnswer_def)

lemma heap_createdOffer_try3 [simp]: "heap (createdOffer_try3 s) = heap s"
  by (simp add: Let_def createdOffer_try3_def split: ref.splits)

lemma heap_createdOffer_try2 [simp]: "heap (createdOffer_try2 d s) = heap s"
  by (simp add: Let_def createdOffer_try2_def split: ref.splits)

lemma heap_createdOffer_try1 [simp]: "heap (createdOffer_try1 d s) = heap s"
  by (simp add: Let_def createdOffer_try1_def split: ref.splits)

lemma heap_createdOffer [simp]: "heap (createdOffer d s) = heap s"
  by (simp add: Let_def createdOffer_def)

lemma heap_resume [simp]: "heap (resume k out s) = heap s"
  by (cases "(k, out, s)" rule: resume.cases)
     (simp_all add: setLocalDescriptionSuccess_def setRemoteDescriptionSuccess_def)

lemma within_session_refs:
  assumes "within_session e"
  shows "localPeerConnection (step e s) = localPeerConnection s
     \<and> remotePeerConnection (step e s) = remotePeerConnection s"
proof (cases e)
  case (Settle t out)
  show ?thesis
  proof (cases "snd t = K_startAction")
    case True
    with Settle show ?thesis
      by (cases out)
         (simp_all add: settle_def gotLocalMediaStream_def handleLocalMediaStreamError_def
            Let_def trace_def)
  next
    case False
    then have "controls (settle t out s) = controls s"
      by (simp add: settle_def controls_resume)
    from refs_of_controls [OF this] Settle show ?thesis by simp
  qed
next
  case Click_start
  then have "bystander e" by simp
  then show ?thesis by (rule bystander_refs)
next
  case (Icecandidate a c)
  then have "bystander e" by simp
  then show ?thesis by (rule bystander_refs)
next
  case (Iceconnectionstatechange a st)
  then have "bystander e" by simp
  then show ?thesis by (rule bystander_refs)
next
  case (Track_event a streams)
  then have "bystander e" by simp
  then show ?thesis by (rule bystander_refs)
qed (use assms in simp_all)

lemma within_session_heap:
  assumes "within_session e"
  shows "length (heap (step e s)) = length (heap s)"
  using assms
  by (cases e)
     (simp_all add: settle_def startAction_def handleConnectionChange_def
        gotRemoteMediaStream_def Let_def)

lemma within_session_live:
  assumes "list_all within_session es" and "live l r s"
  shows "live l r (run es s)"
  using assms
proof (induction es arbitrary: s)
  case Nil
  then show ?case by simp
next
  case (Cons e es)
  then have e: "within_session e" and es: "list_all within_session es" by simp_all
  from within_session_refs [OF e, of s] within_session_heap [OF e, of s] Cons.prems(2)
  have "live l r (step e s)" by (simp add: live_def)
  with es show ?case by (simp add: Cons.IH)
qed

lemma relay_rejected:
  assumes "live l r s" and "E = l \<or> E = r"
  shows
    "console (settle (AddIceCandidate other c, K_handleConnection E c) (Rejected e) s)
       = console s
         @ [(if E = l then ''localPeerConnection'' else ''remotePeerConnection'')
              @ '' failed to add ICE Candidate:\<newline>'' @ toString e @ ''.'',
            trim ((if E = l then ''localPeerConnection'' else ''remotePeerConnection'')
              @ '' ICE candidate:\<newline>'' @ candidate c)]
     \<and> controls (settle (AddIceCandidate other c, K_handleConnection E c) (Rejected e) s)
       = controls s
     \<and> heap (settle (AddIceCandidate other c, K_handleConnection E c) (Rejected e) s) = heap s
     \<and> calls (settle (AddIceCandidate other c, K_handleConnection E c) (Rejected e) s) = calls s
     \<and> pending (settle (AddIceCandidate other c, K_handleConnection E c) (Rejected e) s)
       = remove1 (AddIceCandidate other c, K_handleConnection E c) (pending s)"
  using assms
  by (auto simp: live_def settle_def relay_defs getPeerName_def trace_def
      controls_def trim_def is_space_def)

text \<open>
  C7. In a session under way between \<open>l\<close> and \<open>r\<close>, a candidate of the peer connection
  \<open>E\<close> (one of the two) is passed to the other one, and the task that waits remembers
  \<open>E\<close>. Whatever happens before that \<^verbatim>\<open>addIceCandidate\<close> settles, short of a click on
  call or hangup: when it is rejected, the console gets the line
  \<^verbatim>\<open>failed to add ICE Candidate\<close> with the error, headed by the name of \<open>E\<close>
  (\<^verbatim>\<open>localPeerConnection\<close> for \<open>l\<close>, \<^verbatim>\<open>remotePeerConnection\<close> for \<open>r\<close>), and then the
  candidate line. Nothing is thrown uncaught, and the variables, the buttons, the peer
  connections and the other pending tasks are as they were: the session between \<open>l\<close> and
  \<open>r\<close> goes on.
\<close>

theorem relay_failure_is_logged_not_fatal:
  fixes c :: ice_candidate and e :: js_error
  assumes "live l r s" and "E = l \<or> E = r" and "list_all within_session es"
  defines "t \<equiv> (AddIceCandidate (if E = l then r else l) c, K_handleConnection E c)"
  defines "s' \<equiv> run es (step (Icecandidate E (Some c)) s)"
  shows
    "step (Icecandidate E (Some c)) s = suspend t s
     \<and> console (settle t (Rejected e) s')
       = console s'
         @ [(if E = l then ''localPeerConnection'' else ''remotePeerConnection'')
              @ '' failed to add ICE Candidate:\<newline>'' @ toString e @ ''.'',
            trim ((if E = l then ''localPeerConnection'' else ''remotePeerConnection'')
              @ '' ICE candidate:\<newline>'' @ candidate c)]
     \<and> uncaught (settle t (Rejected e) s') = uncaught s'
     \<and> live l r (settle t (Rejected e) s')
     \<and> controls (settle t (Rejected e) s') = controls s'
     \<and> heap (settle t (Rejected e) s') = heap s'
     \<and> calls (settle t (Rejected e) s') = calls s'
     \<and> pending (settle t (Rejected e) s') = remove1 t (pending s')"
proof -
  from assms(1,2) have 1: "step (Icecandidate E (Some c)) s = suspend t s"
    by (auto simp: t_def live_def handleConnection_def getOtherPeer_def)
  have "list_all within_session (Icecandidate E (Some c) # es)"
    using assms(3) by simp
  from within_session_live [OF this assms(1)] have l: "live l r s'"
    by (simp add: s'_def)
  note r = relay_rejected [OF l assms(2), of "if E = l then r else l" c e, folded t_def]
  from r have c: "controls (settle t (Rejected e) s') = controls s'"
    and h: "heap (settle t (Rejected e) s') = heap s'" by blast+
  from c have u: "uncaught (settle t (Rejected e) s') = uncaught s'"
    by (simp add: controls_def)
  from c h l have "live l r (settle t (Rejected e) s')"
    by (simp add: live_def controls_def)
  with 1 r u show ?thesis by blast
qed

text \<open>
  The sample session: a candidate of the local peer connection, rejected by the remote one
  after the offer has been created.
\<close>

theorem relay_failure_is_logged_not_fatal_witness:
  "live 0 1 calling
   \<and> list_all within_session
        [Settle (CreateOffer 0, K_callAction) (FulfilledDescription offer_O1)]
   \<and> console (run [Icecandidate 0 (Some candidate_c1),
                    Settle (CreateOffer 0, K_callAction) (FulfilledDescription offer_O1),
                    Settle (AddIceCandidate 1 candidate_c1, K_handleConnection 0 candidate_c1)
                      (Rejected rejection)] calling)
       = console (run [Icecandidate 0 (Some candidate_c1),
                       Settle (CreateOffer 0, K_callAction) (FulfilledDescription offer_O1)]
                    calling)
         @ [''localPeerConnection failed to add ICE Candidate:\<newline>OperationError: failed.'',
            ''localPeerConnection ICE candidate:\<newline>c1'']
   \<and> uncaught (run [Icecandidate 0 (Some candidate_c1),
                    Settle (CreateOffer 0, K_callAction) (FulfilledDescription offer_O1),
                    Settle (AddIceCandidate 1 candidate_c1, K_handleConnection 0 candidate_c1)
                      (Rejected rejection)] calling) = []
   \<and> live 0 1 (run [Icecandidate 0 (Some candidate_c1),
                    Settle (CreateOffer 0, K_callAction) (FulfilledDescription offer_O1),
                    Settle (AddIceCandidate 1 candidate_c1, K_handleConnection 0 candidate_c1)
                      (Rejected rejection)] calling)"
proof -
  let ?es = "[Settle (CreateOffer 0, K_callAction) (FulfilledDescription offer_O1)]"
  let ?t = "(AddIceCandidate 1 candidate_c1, K_handleConnection 0 candidate_c1)"
  let ?s = "run ?es (step (Icecandidate 0 (Some candidate_c1)) calling)"
  have l: "live 0 1 calling"
    by (simp add: live_def sample_defs)
  have w: "list_all within_session ?es" by simp
  have p: "?t \<in> set (pending ?s)" "uncaught ?s = []"
    by (simp_all add: sample_defs)
  have e: "toString rejection = ''OperationError: failed''"
    "trim (''localPeerConnection ICE candidate:\<newline>'' @ candidate candidate_c1)
       = ''localPeerConnection ICE candidate:\<newline>c1''"
    by (simp_all add: toString_def rejection_def candidate_c1_def trim_def is_space_def)
  have i: "(if (0::nat) = 0 then 1 else 0) = (1::nat)"
    "(if (0::nat) = 0 then ''localPeerConnection'' else ''remotePeerConnection'')
       = ''localPeerConnection''"
    by simp_all
  note r = relay_failure_is_logged_not_fatal
    [OF l disjI1 [OF refl] w, where c = candidate_c1 and e = rejection, unfolded i]
  from r have "console (settle ?t (Rejected rejection) ?s)
       = console ?s
         @ [''localPeerConnection'' @ '' failed to add ICE Candidate:\<newline>'' @ toString rejection @ ''.'',
            trim (''localPeerConnection'' @ '' ICE candidate:\<newline>'' @ candidate candidate_c1)]"
    "uncaught (settle ?t (Rejected rejection) ?s) = uncaught ?s"
    "live 0 1 (settle ?t (Rejected rejection) ?s)"
    by blast+
  with p e have "console (settle ?t (Rejected rejection) ?s)
       = console ?s
         @ [''localPeerConnection failed to add ICE Candidate:\<newline>OperationError: failed.'',
            ''localPeerConnection ICE candidate:\<newline>c1'']"
    "uncaught (settle ?t (Rejected rejection) ?s) = []"
    "live 0 1 (settle ?t (Rejected rejection) ?s)"
    by simp_all
  moreover have "run [Icecandidate 0 (Some candidate_c1),
                    Settle (CreateOffer 0, K_callAction) (FulfilledDescription offer_O1),
                    Settle ?t (Rejected rejection)] calling = settle ?t (Rejected rejection) ?s"
    using p(1) by simp
  moreover have "run [Icecandidate 0 (Some candidate_c1),
                    Settle (CreateOffer 0, K_callAction) (FulfilledDescription offer_O1)] calling
      = ?s"
    by simp
  ultimately show ?thesis using l w by simp
qed

subsection \<open>Where the relay sends a candidate\<close>

lemma apart_same:
  assumes "localPeerConnection s' = localPeerConnection s"
    and "remotePeerConnection s' = remotePeerConnection s"
    and "length (heap s') = length (heap s)"
    and "apart s"
  shows "apart s'"
  using assms
  by (cases "localPeerConnection s"; cases "remotePeerConnection s") (simp_all add: apart_def)

lemma apart_uncaught [simp]: "apart (s\<lparr>uncaught := u\<rparr>) = apart s"
  by (cases "localPeerConnection s"; cases "remotePeerConnection s") (simp_all add: apart_def)

lemma apart_init: "apart init"
  by (simp add: apart_def init_def)

lemma apart_callAction:
  assumes a: "apart s"
  shows "apart (report (callAction now constructLocal constructRemote s))"
proof (cases "localStream s")
  case None
  from callAction_no_stream [OF None, of now constructLocal constructRemote] obtain s' where
    s': "callAction now constructLocal constructRemote s
           = Throws (cannot_read Undefined ''getVideoTracks'') s'" and
    c: "controls s' = controls (s\<lparr>callButton_disabled := True, hangupButton_disabled := False\<rparr>)"
    and h: "heap s' = heap s"
    by blast
  from c have "localPeerConnection s' = localPeerConnection s"
    "remotePeerConnection s' = remotePeerConnection s"
    by (simp_all add: controls_def)
  with h a have "apart s'" by (simp add: apart_same)
  with s' show ?thesis by simp
next
  case (Some m)
  show ?thesis
  proof (cases constructLocal)
    case (Construction_throws e)
    from callAction_local_throws [OF Some, of now e constructRemote] obtain s' where
      s': "callAction now (Construction_throws e) constructRemote s = Throws e s'" and
      c: "controls s' = controls (s\<lparr>callButton_disabled := True, hangupButton_disabled := False\<rparr>)"
      and h: "heap s' = heap s"
      by blast
    from c have "localPeerConnection s' = localPeerConnection s"
      "remotePeerConnection s' = remotePeerConnection s"
      by (simp_all add: controls_def)
    with h a have "apart s'" by (simp add: apart_same)
    with s' Construction_throws show ?thesis by simp
  next
    case Constructed
    note cl = this
    show ?thesis
    proof (cases constructRemote)
      case (Construction_throws e)
      from callAction_remote_throws [OF Some, of now e] obtain s' where
        s': "callAction now Constructed (Construction_throws e) s = Throws e s'" and
        c: "controls s' = controls (s\<lparr>callButton_disabled := True, hangupButton_disabled := False,
                 localPeerConnection := Obj (length (heap s))\<rparr>)"
        and h: "heap s' = heap s @ [fresh_peer_connection]"
        by blast
      from c have r: "localPeerConnection s' = Obj (length (heap s))"
        "remotePeerConnection s' = remotePeerConnection s"
        by (simp_all add: controls_def)
      from a have "in_heap (remotePeerConnection s) s" by (simp add: apart_def)
      with r h have "apart s'"
        by (cases "remotePeerConnection s") (simp_all add: apart_def)
      with s' cl Construction_throws show ?thesis by simp
    next
      case Constructed
      from callAction_started [OF Some, of now] callAction_offer [OF Some, of now] obtain s' where
        s': "callAction now Constructed Constructed s = Normal s'" and
        c: "controls s' = controls (s\<lparr>callButton_disabled := True, hangupButton_disabled := False,
                 localPeerConnection := Obj (length (heap s)),
                 remotePeerConnection := Obj (Suc (length (heap s)))\<rparr>)"
        and h: "length (heap s') = length (heap s) + 2" by auto
      from c have "localPeerConnection s' = Obj (length (heap s))"
        "remotePeerConnection s' = Obj (Suc (length (heap s)))"
        by (simp_all add: controls_def)
      with h have "apart s'" by (simp add: apart_def)
      with s' cl Constructed show ?thesis by simp
    qed
  qed
qed

lemma apart_hangupAction:
  assumes a: "apart s"
  shows "apart (report (hangupAction s))"
proof (cases "hangupAction s")
  case (Throws e s')
  from hangupAction_throws [OF Throws] a have "apart s'"
    by (simp add: apart_same)
  with Throws show ?thesis by simp
next
  case (Normal s')
  then obtain l r where lr: "localPeerConnection s = Obj l" "remotePeerConnection s = Obj r"
    using hangupAction_Normal by blast
  from hangupAction_live [OF lr] Normal have
    "controls s' = controls (s\<lparr>localPeerConnection := Null, remotePeerConnection := Null,
                 hangupButton_disabled := True, callButton_disabled := False\<rparr>)" by simp
  then have "localPeerConnection s' = Null" "remotePeerConnection s' = Null"
    by (simp_all add: controls_def)
  then have "apart s'" by (simp add: apart_def)
  with Normal show ?thesis by simp
qed

lemma apart_step:
  assumes a: "apart s"
  shows "apart (step e s)"
proof (cases "within_session e")
  case True
  from within_session_refs [OF True, of s] within_session_heap [OF True, of s] a
  show ?thesis by (simp add: apart_same)
next
  case False
  then show ?thesis
  proof (cases e)
    case (Click_call now constructLocal constructRemote)
    with a apart_callAction [OF a, of now constructLocal constructRemote] show ?thesis by simp
  next
    case Click_hangup
    with a apart_hangupAction [OF a] show ?thesis by simp
  qed simp_all
qed

lemma apart_run: "apart s \<Longrightarrow> apart (run es s)"
  by (induction es arbitrary: s) (simp_all add: apart_step)

lemma getOtherPeer_distinct:
  assumes "apart s"
  shows "getOtherPeer (Obj E) s \<noteq> Obj E"
proof -
  from assms have "localPeerConnection s = remotePeerConnection s
      \<longrightarrow> \<not> is_obj (localPeerConnection s)"
    by (simp add: apart_def)
  then show ?thesis
    by (cases "localPeerConnection s = Obj E") (auto simp: getOtherPeer_def)
qed

text \<open>
  C2. In every state the page reaches, for a candidate event of the peer connection \<open>E\<close>
  that carries a candidate, \<^verbatim>\<open>handleConnection\<close> makes at most one platform call:
  \<^verbatim>\<open>addIceCandidate\<close> on \<^verbatim>\<open>getOtherPeer(E)\<close>, when that is an object. That object is
  never \<open>E\<close>, so no \<^verbatim>\<open>addIceCandidate\<close> is made on \<open>E\<close>; it is the remote peer
  connection when \<open>E\<close> is the local one, and the local one when \<open>E\<close> is the remote one.
\<close>

theorem relay_target_is_the_other_peer:
  "calls (handleConnection E (Some c) (run es init))
     = calls (run es init)
       @ (case getOtherPeer (Obj E) (run es init) of
            Obj other \<Rightarrow> [AddIceCandidate other c] | _ \<Rightarrow> [])
   \<and> getOtherPeer (Obj E) (run es init) \<noteq> Obj E
   \<and> AddIceCandidate E c
       \<notin> set (drop (length (calls (run es init))) (calls (handleConnection E (Some c) (run es init))))
   \<and> (localPeerConnection (run es init) = Obj E \<longrightarrow>
        getOtherPeer (Obj E) (run es init) = remotePeerConnection (run es init))
   \<and> (remotePeerConnection (run es init) = Obj E \<longrightarrow>
        getOtherPeer (Obj E) (run es init) = localPeerConnection (run es init))"
proof -
  let ?s = "run es init"
  have g: "apart ?s" using apart_init by (rule apart_run)
  have 1: "calls (handleConnection E (Some c) ?s)
     = calls ?s @ (case getOtherPeer (Obj E) ?s of
            Obj other \<Rightarrow> [AddIceCandidate other c] | _ \<Rightarrow> [])"
    by (rule calls_handleConnection)
  have 2: "getOtherPeer (Obj E) ?s \<noteq> Obj E"
    using g by (rule getOtherPeer_distinct)
  have 3: "AddIceCandidate E c
       \<notin> set (drop (length (calls ?s)) (calls (handleConnection E (Some c) ?s)))"
    using 2 by (simp add: 1 split: ref.splits)
  have 4: "localPeerConnection ?s = Obj E \<longrightarrow>
        getOtherPeer (Obj E) ?s = remotePeerConnection ?s"
    by (simp add: getOtherPeer_def)
  have 5: "remotePeerConnection ?s = Obj E \<longrightarrow>
        getOtherPeer (Obj E) ?s = localPeerConnection ?s"
    using getOtherPeer_distinct [OF g, of E] by (auto simp: getOtherPeer_def)
  from 1 2 3 4 5 show ?thesis by blast
qed

text \<open>The sample session: a candidate of the local peer connection goes to the remote one.\<close>

theorem relay_target_is_the_other_peer_witness:
  "localPeerConnection calling = Obj 0
   \<and> remotePeerConnection calling = Obj 1
   \<and> getOtherPeer (Obj 0) calling = Obj 1
   \<and> getOtherPeer (Obj 1) calling = Obj 0
   \<and> calls (handleConnection 0 (Some candidate_c1) calling)
       = calls calling @ [AddIceCandidate 1 candidate_c1]"
proof -
  note r = calling_refs
  note t0 = relay_target_is_the_other_peer
    [of 0 candidate_c1 "[Click_start, Settle (GetUserMedia, K_startAction) (FulfilledStream camera_stream), Click_call 0 Constructed Constructed]",
     folded calling_def]
  note t1 = relay_target_is_the_other_peer
    [of 1 candidate_c1 "[Click_start, Settle (GetUserMedia, K_startAction) (FulfilledStream camera_stream), Click_call 0 Constructed Constructed]",
     folded calling_def]
  from t0 r have a: "getOtherPeer (Obj 0) calling = Obj 1" by simp
  from t1 r have b: "getOtherPeer (Obj 1) calling = Obj 0" by simp
  from t0 have "calls (handleConnection 0 (Some candidate_c1) calling)
     = calls calling @ (case getOtherPeer (Obj 0) calling of
            Obj other \<Rightarrow> [AddIceCandidate other candidate_c1] | _ \<Rightarrow> [])" by blast
  with a have c: "calls (handleConnection 0 (Some candidate_c1) calling)
       = calls calling @ [AddIceCandidate 1 candidate_c1]" by simp
  from r a b c show ?thesis by blast
qed

end
